theory Spec2Isabelle
  imports Complex_Main "HOL-Library.Log_Nat"
begin

section \<open>JavaScript values used by the fee migration\<close>

text \<open>
  The numeric columns of a ledger row arrive as JavaScript numbers or as \<open>null\<close>.
  A nullable column is an \<open>option\<close>; \<open>None\<close> is \<open>null\<close>. Amounts and fees are whole
  numbers of minor units (\<open>int\<close>) of a magnitude below \<open>2^53\<close>, where the sums the script
  takes are exact. The exchange rate is a fraction: the column holds a decimal, and the
  script works with the double (IEEE 754 binary64) nearest to it.
\<close>

subsection \<open>Doubles\<close>

text \<open>
  A JavaScript number is a finite double, given by its exact rational value, an infinity
  or NaN. The sign of a zero is not kept: \<open>-0\<close> and \<open>0\<close> are equal under \<open>===\<close> and both
  falsy.
\<close>

datatype jsnum = Finite rat | PlusInfinity | MinusInfinity | NaN

definition pow2 :: "int \<Rightarrow> rat" where
  "pow2 e = (if 0 \<le> e then 2 ^ nat e else 1 / 2 ^ nat (- e))"

text \<open>Rounding to the nearest integer, a tie going to the even neighbour.\<close>

definition round_half_even :: "rat \<Rightarrow> int" where
  "round_half_even y =
     (let f = \<lfloor>y\<rfloor>; d = y - of_int f in
      if d < 1 / 2 then f
      else if 1 / 2 < d then f + 1
      else if even f then f else f + 1)"

text \<open>The exponent \<open>e\<close> with \<open>2^e \<le> \<bar>x\<bar> < 2^(e + 1)\<close>, for \<open>x\<close> other than 0.\<close>

definition binary_exponent :: "rat \<Rightarrow> int" where
  "binary_exponent x =
     (let (p, q) = quotient_of \<bar>x\<bar>; e = bitlen p - bitlen q in
      if \<bar>x\<bar> < pow2 e then e - 1 else e)"

text \<open>
  The double nearest to a rational (round to nearest, ties to even): the magnitude is
  rounded to a whole number \<open>m\<close> of units \<open>2^(e - 52)\<close>, which leaves 53 significant bits
  for a normal number and a multiple of \<open>2^-1074\<close> below \<open>2^-1022\<close>. The result is an
  infinity once the rounded magnitude reaches \<open>2^1024\<close>, that is for \<open>e\<close> above 1023, or
  \<open>e\<close> 1023 and \<open>m\<close> rounded up to \<open>2^53\<close>.
\<close>

definition to_double :: "rat \<Rightarrow> jsnum" where
  "to_double x =
     (if x = 0 then Finite 0
      else
        let e = max (binary_exponent x) (- 1022);
            ulp = pow2 (e - 52);
            m = round_half_even (\<bar>x\<bar> / ulp)
        in if 1023 < e \<or> (e = 1023 \<and> 2 ^ 53 \<le> m)
           then (if 0 < x then PlusInfinity else MinusInfinity)
           else Finite (if 0 < x then of_int m * ulp else - (of_int m * ulp)))"

definition positive :: "jsnum \<Rightarrow> bool" where
  "positive a = (case a of Finite x \<Rightarrow> 0 < x | PlusInfinity \<Rightarrow> True | _ \<Rightarrow> False)"

text \<open>
  The operator \<open>*\<close>: the exact product rounded to a double; NaN for a NaN operand and for
  an infinity times 0.
\<close>

definition times_double :: "jsnum \<Rightarrow> jsnum \<Rightarrow> jsnum" where
  "times_double a b =
     (case (a, b) of
        (Finite x, Finite y) \<Rightarrow> to_double (x * y)
      | _ \<Rightarrow>
          if a = NaN \<or> b = NaN \<or> a = Finite 0 \<or> b = Finite 0 then NaN
          else if positive a = positive b then PlusInfinity else MinusInfinity)"

text \<open>The operator \<open>/\<close> on two integers: a division by 0 gives an infinity, or NaN for \<open>0 / 0\<close>.\<close>

definition divide_integers :: "int \<Rightarrow> int \<Rightarrow> jsnum" where
  "divide_integers x y =
     (if y = 0 then (if x = 0 then NaN else if 0 < x then PlusInfinity else MinusInfinity)
      else to_double (of_int x / of_int y))"

text \<open>The operator \<open>-\<close> with a finite right operand.\<close>

definition minus_finite :: "jsnum \<Rightarrow> rat \<Rightarrow> jsnum" where
  "minus_finite a y = (case a of Finite x \<Rightarrow> to_double (x - y) | _ \<Rightarrow> a)"

subsection \<open>Conversions\<close>

text \<open>ToNumber on a number-or-null operand of \<open>+\<close>, \<open>-\<close> and \<open>*\<close>: \<open>null\<close> counts as 0.\<close>

definition ToNumber :: "int option \<Rightarrow> int" where
  "ToNumber v = (case v of None \<Rightarrow> 0 | Some n \<Rightarrow> n)"

text \<open>
  The exchange rate as the script reads it: the double nearest to the stored decimal,
  \<open>null\<close> counting as 0 under \<open>*\<close>.
\<close>

definition ToNumber_rate :: "rat option \<Rightarrow> jsnum" where
  "ToNumber_rate v = (case v of None \<Rightarrow> Finite 0 | Some r \<Rightarrow> to_double r)"

text \<open>ToBoolean: \<open>null\<close> and 0 are falsy, every other number is truthy.\<close>

definition truthy :: "int option \<Rightarrow> bool" where
  "truthy v = (case v of None \<Rightarrow> False | Some n \<Rightarrow> n \<noteq> 0)"

definition truthy_rate :: "rat option \<Rightarrow> bool" where
  "truthy_rate v = (case v of None \<Rightarrow> False | Some r \<Rightarrow> to_double r \<noteq> Finite 0)"

text \<open>\<open>Math.round\<close>: the nearest integer, a tie going towards plus infinity.\<close>

definition Math_round :: "rat \<Rightarrow> int" where
  "Math_round x = \<lfloor>x + 1 / 2\<rfloor>"

text \<open>
  \<open>parseInt(n, 10)\<close> of an integer: the number is printed in decimal and read back,
  which returns it unchanged (for a magnitude below \<open>10^21\<close>, where the printed form
  has no exponent; the columns are far below that).
\<close>

definition parseInt :: "int \<Rightarrow> int" where
  "parseInt n = n"

section \<open>The ledger row\<close>

text \<open>
  Modelled from the spec: the Transaction model (\<open>server/models\<close>) is not among the
  sources. The record holds the columns the migration script reads or writes:
  \<open>id\<close>, \<open>type\<close>, \<open>TransactionGroup\<close>, \<open>OrderId\<close>, \<open>ExpenseId\<close>, \<open>deletedAt\<close>,
  \<open>amount\<close>, \<open>amountInHostCurrency\<close>, the three fee columns,
  \<open>hostCurrencyFxRate\<close> and \<open>netAmountInCollectiveCurrency\<close>.
\<close>

record transaction =
  tx_id :: nat
  tx_type :: string
  TransactionGroup :: "string option"
  OrderId :: "nat option"
  ExpenseId :: "nat option"
  deletedAt :: "int option"
  amount :: "int option"
  amountInHostCurrency :: "int option"
  hostFeeInHostCurrency :: "int option"
  platformFeeInHostCurrency :: "int option"
  paymentProcessorFeeInHostCurrency :: "int option"
  hostCurrencyFxRate :: "rat option"
  netAmountInCollectiveCurrency :: "int option"

section \<open>Fee arithmetic of the migration (\<open>properly_populate_transaction_fees.js\<close>)\<close>

text \<open>\<open>trValue\<close>: net value of a transaction.\<close>

definition trValue :: "transaction \<Rightarrow> jsnum" where
  "trValue tr =
     times_double
       (Finite (of_int (Math_round (of_int
         (ToNumber (amountInHostCurrency tr) +
          ToNumber (hostFeeInHostCurrency tr) +
          ToNumber (platformFeeInHostCurrency tr) +
          ToNumber (paymentProcessorFeeInHostCurrency tr))))))
       (ToNumber_rate (hostCurrencyFxRate tr))"

text \<open>
  \<open>verify\<close>: strict equality of the net value and the stored net amount. A number is
  never strictly equal to \<open>null\<close>.
\<close>

definition verify :: "transaction \<Rightarrow> bool" where
  "verify tr =
     (case netAmountInCollectiveCurrency tr of
        None \<Rightarrow> False
      | Some n \<Rightarrow> trValue tr = Finite (of_int n))"

definition difference :: "transaction \<Rightarrow> jsnum" where
  "difference tr =
     minus_finite (trValue tr) (of_int (ToNumber (netAmountInCollectiveCurrency tr)))"

text \<open>\<open>toNegative\<close>: \<open>value > 0 ? -value : value\<close>; \<open>null > 0\<close> is false.\<close>

definition toNegative :: "int option \<Rightarrow> int option" where
  "toNegative v = (case v of None \<Rightarrow> None | Some n \<Rightarrow> if n > 0 then Some (- n) else Some n)"

text \<open>\<open>ensureHostCurrencyFxRate\<close>; the test \<open>!tr.hostCurrencyFxRate\<close> holds of \<open>null\<close> and of 0.\<close>

definition ensureHostCurrencyFxRate :: "transaction \<Rightarrow> transaction" where
  "ensureHostCurrencyFxRate tr =
     (if amount tr = amountInHostCurrency tr \<and> \<not> truthy_rate (hostCurrencyFxRate tr)
      then tr\<lparr>hostCurrencyFxRate := Some 1\<rparr>
      else tr)"

text \<open>\<open>hasFees\<close>: only its truth value is used by the caller.\<close>

definition fee_set :: "int option \<Rightarrow> bool" where
  "fee_set v = (truthy v \<and> parseInt (ToNumber v) \<noteq> 0)"

definition hasFees :: "transaction \<Rightarrow> bool" where
  "hasFees tr =
     (fee_set (hostFeeInHostCurrency tr)
      \<or> fee_set (platformFeeInHostCurrency tr)
      \<or> fee_set (paymentProcessorFeeInHostCurrency tr))"

section \<open>One pair of rows\<close>

text \<open>
  \<open>migrate\<close> works on two row objects and on the names \<open>credit\<close> and \<open>debit\<close>, each of
  which refers to one of the two. When the first row is neither a credit nor a debit
  both names refer to the second row, so the pair is kept as a two-cell store and the
  names are cells of it.
\<close>

datatype slot = Row1 | Row2

type_synonym pair = "transaction \<times> transaction"

fun row :: "slot \<Rightarrow> pair \<Rightarrow> transaction" where
  "row Row1 (a, b) = a"
| "row Row2 (a, b) = b"

fun update_row :: "slot \<Rightarrow> (transaction \<Rightarrow> transaction) \<Rightarrow> pair \<Rightarrow> pair" where
  "update_row Row1 f (a, b) = (f a, b)"
| "update_row Row2 f (a, b) = (a, f b)"

text \<open>\<open>credit = tr1.type === 'CREDIT' ? tr1 : tr2\<close> and \<open>debit = tr1.type === 'DEBIT' ? tr1 : tr2\<close>.\<close>

definition credit_of :: "transaction \<Rightarrow> slot" where
  "credit_of tr1 = (if tx_type tr1 = ''CREDIT'' then Row1 else Row2)"

definition debit_of :: "transaction \<Rightarrow> slot" where
  "debit_of tr1 = (if tx_type tr1 = ''DEBIT'' then Row1 else Row2)"

text \<open>
  \<open>rewriteFees\<close>: each line is \<open>credit.f = debit.f = toNegative(credit.f)\<close>. The value
  is computed from the credit row, stored in the debit row, then in the credit row.
\<close>

definition rewriteFees :: "slot \<Rightarrow> slot \<Rightarrow> pair \<Rightarrow> pair" where
  "rewriteFees credit debit p0 =
     (let h = toNegative (hostFeeInHostCurrency (row credit p0));
          p1 = update_row debit (\<lambda>t. t\<lparr>hostFeeInHostCurrency := h\<rparr>) p0;
          p2 = update_row credit (\<lambda>t. t\<lparr>hostFeeInHostCurrency := h\<rparr>) p1;
          f = toNegative (platformFeeInHostCurrency (row credit p2));
          p3 = update_row debit (\<lambda>t. t\<lparr>platformFeeInHostCurrency := f\<rparr>) p2;
          p4 = update_row credit (\<lambda>t. t\<lparr>platformFeeInHostCurrency := f\<rparr>) p3;
          g = toNegative (paymentProcessorFeeInHostCurrency (row credit p4));
          p5 = update_row debit (\<lambda>t. t\<lparr>paymentProcessorFeeInHostCurrency := g\<rparr>) p4;
          p6 = update_row credit (\<lambda>t. t\<lparr>paymentProcessorFeeInHostCurrency := g\<rparr>) p5
      in p6)"

text \<open>What the script prints, one value per \<open>console.log\<close> call.\<close>

datatype log_line =
    LogGroup "string option"
  | LogExpense bool bool
  | LogOrder bool bool
  | LogNoFees
  | LogDoesntAddUp nat string "string option" jsnum
  | LogWat bool bool
  | LogValue string "int option"
  | LogText string

datatype error =
    WrongPair
  | CannotFindPair nat
  | TypeError
  | DatabaseError

text \<open>The ten lines printed at the end of \<open>migrate\<close>.\<close>

definition report :: "transaction \<Rightarrow> transaction \<Rightarrow> log_line list" where
  "report credit debit =
     [LogValue ''C:amount'' (amountInHostCurrency credit),
      LogValue ''C:netAmount'' (netAmountInCollectiveCurrency credit),
      LogValue ''C:hostFee'' (hostFeeInHostCurrency credit),
      LogValue ''C:platformFee'' (platformFeeInHostCurrency credit),
      LogValue ''C:ppFee'' (paymentProcessorFeeInHostCurrency credit),
      LogValue ''D:amount'' (amountInHostCurrency debit),
      LogValue ''D:netAmount'' (netAmountInCollectiveCurrency debit),
      LogValue ''D:hostFee'' (hostFeeInHostCurrency debit),
      LogValue ''D:platformFee'' (platformFeeInHostCurrency debit),
      LogValue ''D:ppFee'' (paymentProcessorFeeInHostCurrency debit)]"

text \<open>
  The outcome of one call of \<open>migrate\<close>: the error thrown (if any), the lines printed
  and the two row objects as the call leaves them.
\<close>

record outcome =
  thrown :: "error option"
  printed :: "log_line list"
  rows :: pair

definition mismatch_lines :: "slot \<Rightarrow> string \<Rightarrow> pair \<Rightarrow> log_line list" where
  "mismatch_lines s kind p =
     (if \<not> verify (row s p)
      then [LogDoesntAddUp (tx_id (row s p)) kind (TransactionGroup (row s p)) (difference (row s p))]
      else [])"

definition migrate :: "transaction \<Rightarrow> transaction \<Rightarrow> outcome" where
  "migrate tr1 tr2 =
     (let head = [LogGroup (TransactionGroup tr1), LogGroup (TransactionGroup tr2)] in
      if TransactionGroup tr1 \<noteq> TransactionGroup tr2
      then \<lparr>thrown = Some WrongPair, printed = head, rows = (tr1, tr2)\<rparr>
      else
        let credit = credit_of tr1; debit = debit_of tr1 in
        if ExpenseId tr1 \<noteq> None \<and> ExpenseId tr1 = ExpenseId tr2
        then \<lparr>thrown = None,
              printed = head @ [LogExpense (verify tr1) (verify tr2)]
                        @ report (row credit (tr1, tr2)) (row debit (tr1, tr2)),
              rows = (tr1, tr2)\<rparr>
        else if OrderId tr1 \<noteq> None \<and> OrderId tr1 = OrderId tr2
        then
          let p1 = update_row credit ensureHostCurrencyFxRate (tr1, tr2);
              p2 = update_row debit ensureHostCurrencyFxRate p1;
              l1 = head @ [LogOrder (verify (row credit p2)) (verify (row debit p2))]
          in
          if \<not> hasFees (fst p2) \<and> \<not> hasFees (snd p2)
          then \<lparr>thrown = None, printed = l1 @ [LogNoFees], rows = p2\<rparr>
          else
            let p3 = rewriteFees credit debit p2 in
            \<lparr>thrown = None,
             printed = l1 @ mismatch_lines credit ''CREDIT'' p3 @ mismatch_lines debit ''DEBIT'' p3
                       @ report (row credit p3) (row debit p3),
             rows = p3\<rparr>
        else \<lparr>thrown = None,
              printed = head @ [LogWat (verify tr1) (verify tr2)]
                        @ report (row credit (tr1, tr2)) (row debit (tr1, tr2)),
              rows = (tr1, tr2)\<rparr>)"

section \<open>Option values and the command line\<close>

text \<open>
  The options \<open>limit\<close> and \<open>batchSize\<close> are \<open>null\<close>, a number, or (from the command
  line) a string. The numbers that occur are counts of rows and the two defaults, all
  whole and not negative. A string is a list of characters with codes below 256.
\<close>

datatype jsval = JNull | JNum nat | JStr string

definition js_truthy :: "jsval \<Rightarrow> bool" where
  "js_truthy v = (case v of JNull \<Rightarrow> False | JNum n \<Rightarrow> n \<noteq> 0 | JStr s \<Rightarrow> s \<noteq> [])"

text \<open>\<open>a || b\<close>\<close>

definition js_or :: "jsval \<Rightarrow> jsval \<Rightarrow> jsval" where
  "js_or a b = (if js_truthy a then a else b)"

subsection \<open>A string as a number\<close>

text \<open>The value of a decimal digit, from its character code (\<open>0\<close> is 48, \<open>9\<close> is 57).\<close>

definition digit_of :: "char \<Rightarrow> int option" where
  "digit_of c =
     (let code = (of_char c :: int) in
      if 48 \<le> code \<and> code \<le> 57 then Some (code - 48) else None)"

fun digits_value :: "int \<Rightarrow> string \<Rightarrow> int option" where
  "digits_value acc [] = Some acc"
| "digits_value acc (c # cs) =
     (case digit_of c of None \<Rightarrow> None | Some d \<Rightarrow> digits_value (10 * acc + d) cs)"

text \<open>A non-empty string of decimal digits as a number; \<open>None\<close> for any other string.\<close>

definition numeral_string :: "string \<Rightarrow> int option" where
  "numeral_string s = (if s = [] then None else digits_value 0 s)"

text \<open>
  The digits of the literals \<open>0x..\<close>, \<open>0o..\<close> and \<open>0b..\<close>: a letter \<open>a\<close> to \<open>f\<close> (97 to 102)
  or \<open>A\<close> to \<open>F\<close> (65 to 70) counts from ten, and a digit must be below the radix.
\<close>

definition radix_digit_of :: "int \<Rightarrow> char \<Rightarrow> int option" where
  "radix_digit_of radix c =
     (let code = (of_char c :: int);
          d = (if 48 \<le> code \<and> code \<le> 57 then code - 48
               else if 97 \<le> code \<and> code \<le> 102 then code - 87
               else if 65 \<le> code \<and> code \<le> 70 then code - 55
               else radix)
      in if d < radix then Some d else None)"

fun radix_value :: "int \<Rightarrow> int \<Rightarrow> string \<Rightarrow> int option" where
  "radix_value radix acc [] = Some acc"
| "radix_value radix acc (c # cs) =
     (case radix_digit_of radix c of
        None \<Rightarrow> None
      | Some d \<Rightarrow> radix_value radix (radix * acc + d) cs)"

definition NonDecimalIntegerLiteral :: "string \<Rightarrow> int option" where
  "NonDecimalIntegerLiteral s =
     (case s of
        zero # letter # digits \<Rightarrow>
          if zero \<noteq> CHR ''0'' \<or> digits = [] then None
          else if letter = CHR ''x'' \<or> letter = CHR ''X'' then radix_value 16 0 digits
          else if letter = CHR ''o'' \<or> letter = CHR ''O'' then radix_value 8 0 digits
          else if letter = CHR ''b'' \<or> letter = CHR ''B'' then radix_value 2 0 digits
          else None
      | _ \<Rightarrow> None)"

text \<open>The exponent part: empty, or \<open>e\<close> or \<open>E\<close> and a whole number with an optional sign.\<close>

definition ExponentPart :: "string \<Rightarrow> int option" where
  "ExponentPart s =
     (case s of
        [] \<Rightarrow> Some 0
      | letter # signed \<Rightarrow>
          (case signed of
             [] \<Rightarrow> None
           | c # digits \<Rightarrow>
               if c = CHR ''-'' then map_option uminus (numeral_string digits)
               else if c = CHR ''+'' then numeral_string digits
               else numeral_string signed))"

text \<open>
  An unsigned decimal literal: digits, optionally a point and more digits, optionally
  an exponent part; there must be a digit before or after the point.
\<close>

definition StrUnsignedDecimalLiteral :: "string \<Rightarrow> rat option" where
  "StrUnsignedDecimalLiteral s =
     (let no_exponent = (\<lambda>c. c \<noteq> CHR ''e'' \<and> c \<noteq> CHR ''E'');
          mantissa = takeWhile no_exponent s;
          whole = takeWhile (\<lambda>c. c \<noteq> CHR ''.'') mantissa;
          fraction = drop (length whole + 1) mantissa
      in if whole = [] \<and> fraction = [] then None
         else
           case (digits_value 0 whole, digits_value 0 fraction,
                 ExponentPart (dropWhile no_exponent s)) of
             (Some i, Some f, Some e) \<Rightarrow>
               Some ((of_int i + of_int f / 10 ^ length fraction)
                     * (if 0 \<le> e then 10 ^ nat e else 1 / 10 ^ nat (- e)))
           | _ \<Rightarrow> None)"

definition StrDecimalLiteral :: "string \<Rightarrow> jsnum" where
  "StrDecimalLiteral s =
     (let negative = (take 1 s = ''-'');
          unsigned = (if take 1 s = ''-'' \<or> take 1 s = ''+'' then drop 1 s else s)
      in if unsigned = ''Infinity'' then (if negative then MinusInfinity else PlusInfinity)
         else case StrUnsignedDecimalLiteral unsigned of
                None \<Rightarrow> NaN
              | Some r \<Rightarrow> to_double (if negative then - r else r))"

text \<open>
  White space and line ends: tab, line feed, vertical tab, form feed, return, space and
  no-break space.
\<close>

definition is_space :: "char \<Rightarrow> bool" where
  "is_space c = ((of_char c :: nat) \<in> {9, 10, 11, 12, 13, 32, 160})"

definition trim :: "string \<Rightarrow> string" where
  "trim s = rev (dropWhile is_space (rev (dropWhile is_space s)))"

text \<open>
  ToNumber of a string: blanks around the literal are dropped; nothing is 0; a literal
  of another radix or a decimal literal has its value, rounded to a double; any other
  string is NaN.
\<close>

definition StringToNumber :: "string \<Rightarrow> jsnum" where
  "StringToNumber s =
     (let literal = trim s in
      if literal = [] then Finite 0
      else case NonDecimalIntegerLiteral literal of
             Some n \<Rightarrow> to_double (of_int n)
           | None \<Rightarrow> StrDecimalLiteral literal)"

text \<open>ToNumber: \<open>null\<close> is 0.\<close>

definition js_number :: "jsval \<Rightarrow> jsnum" where
  "js_number v =
     (case v of JNull \<Rightarrow> Finite 0 | JNum n \<Rightarrow> Finite (of_nat n) | JStr s \<Rightarrow> StringToNumber s)"

text \<open>\<open>n < v\<close> for a number \<open>n\<close>: false when \<open>v\<close> converts to NaN.\<close>

definition js_less :: "nat \<Rightarrow> jsval \<Rightarrow> bool" where
  "js_less n v =
     (case js_number v of
        Finite x \<Rightarrow> of_nat n < x
      | PlusInfinity \<Rightarrow> True
      | _ \<Rightarrow> False)"

record options =
  dryRun :: bool
  verbose :: bool
  limit :: jsval
  batchSize :: jsval

text \<open>
  What was typed on the command line: the two switches, and the values given to
  \<open>--limit\<close> and \<open>--batch-size\<close> when these flags were passed.
\<close>

record command_line =
  verbose_flag :: bool
  notdryrun_flag :: bool
  limit_arg :: "string option"
  batch_size_arg :: "string option"

record parsed_args =
  args_verbose :: bool
  args_notdryrun :: bool
  args_limit :: jsval
  args_batch_size :: jsval

text \<open>
  \<open>parser.parseArgs()\<close> of the argparse library, for the four arguments the script
  declares: a \<open>storeConst\<close> switch yields its constant \<open>true\<close> when present and its
  \<open>defaultValue\<close> \<open>false\<close> otherwise; a valued option yields the string given, and when
  absent its \<open>defaultValue\<close>: none (\<open>null\<close>) for \<open>--limit\<close>, 10 for \<open>--batch-size\<close>.
\<close>

definition parseArgs :: "command_line \<Rightarrow> parsed_args" where
  "parseArgs cl =
     \<lparr>args_verbose = (if verbose_flag cl then True else False),
      args_notdryrun = (if notdryrun_flag cl then True else False),
      args_limit = (case limit_arg cl of None \<Rightarrow> JNull | Some s \<Rightarrow> JStr s),
      args_batch_size = (case batch_size_arg cl of None \<Rightarrow> JNum 10 | Some s \<Rightarrow> JStr s)\<rparr>"

definition parseCommandLineArguments :: "command_line \<Rightarrow> options" where
  "parseCommandLineArguments cl =
     (let args = parseArgs cl in
      \<lparr>dryRun = \<not> args_notdryrun args,
       verbose = args_verbose args,
       limit = args_limit args,
       batchSize = js_or (args_batch_size args) (JNum 100)\<rparr>)"

section \<open>The scan over the ledger\<close>

text \<open>
  Calls that reach the store. The script issues counts, page reads and the final close;
  the two writing calls of a row object are listed so that their absence can be stated.
\<close>

datatype store_call =
    CountCall
  | FindAllCall jsval nat
  | SaveCall transaction
  | UpdateCall transaction
  | CloseCall

definition is_write :: "store_call \<Rightarrow> bool" where
  "is_write q = (case q of SaveCall t \<Rightarrow> True | UpdateCall t \<Rightarrow> True | _ \<Rightarrow> False)"

text \<open>
  The state of a run: the cursor \<open>this.offset\<close> and the counter \<open>this.migrated\<close> of the
  \<open>Migration\<close> object, the persisted Transaction table (listed in the order the query's
  \<open>ORDER BY TransactionGroup\<close> returns its rows), what has been printed and which calls
  have reached the store.
\<close>

record state =
  offset :: nat
  migrated :: nat
  table :: "transaction list"
  console :: "log_line list"
  queries :: "store_call list"

definition valid_rows :: "transaction list \<Rightarrow> transaction list" where
  "valid_rows tbl = filter (\<lambda>t. deletedAt t = None) tbl"

definition countValidTransactions :: "state \<Rightarrow> nat \<times> state" where
  "countValidTransactions st =
     (length (valid_rows (table st)), st\<lparr>queries := queries st @ [CountCall]\<rparr>)"

text \<open>
  The \<open>LIMIT\<close> of the page query. Modelled from the spec: the store (sequelize and the
  database) is not among the sources; it offers an ordered, offset-paginated scan over
  the non-deleted rows. A \<open>null\<close> limit puts no bound on the page, a number or a numeral
  string bounds it, and any other string is rejected by the database.
\<close>

definition page_limit :: "jsval \<Rightarrow> error + nat option" where
  "page_limit v =
     (case v of JNull \<Rightarrow> Inr None | JNum n \<Rightarrow> Inr (Some n)
      | JStr s \<Rightarrow>
          (case numeral_string s of None \<Rightarrow> Inl DatabaseError | Some n \<Rightarrow> Inr (Some (nat n))))"

definition findAll :: "transaction list \<Rightarrow> jsval \<Rightarrow> nat \<Rightarrow> error + transaction list" where
  "findAll tbl bound off =
     (case page_limit bound of
        Inl e \<Rightarrow> Inl e
      | Inr None \<Rightarrow> Inr (drop off (valid_rows tbl))
      | Inr (Some n) \<Rightarrow> Inr (take n (drop off (valid_rows tbl))))"

text \<open>\<open>retrieveValidTransactions\<close>: one page, and the cursor moved past it.\<close>

definition retrieveValidTransactions :: "options \<Rightarrow> state \<Rightarrow> (error + transaction list) \<times> state" where
  "retrieveValidTransactions opts st =
     (let st1 = st\<lparr>queries := queries st @ [FindAllCall (batchSize opts) (offset st)]\<rparr> in
      case findAll (table st) (batchSize opts) (offset st) of
        Inl e \<Rightarrow> (Inl e, st1)
      | Inr transactions \<Rightarrow> (Inr transactions, st1\<lparr>offset := offset st1 + length transactions\<rparr>))"

text \<open>
  The \<open>for\<close> loop of \<open>run\<close> over one page, two rows at a time. Reading
  \<open>transactions[i + 1].TransactionGroup\<close> past the end of the page is a \<open>TypeError\<close>.
  \<open>migrate\<close> is called without \<open>await\<close>: it runs to its end at once and an error it
  throws stays in its promise. The second component is the page's row objects as the
  loop leaves them in memory.
\<close>

fun for_each_pair :: "transaction list \<Rightarrow> state \<Rightarrow> error option \<times> transaction list \<times> state" where
  "for_each_pair [] st = (None, [], st)"
| "for_each_pair [t] st = (Some TypeError, [t], st)"
| "for_each_pair (t1 # t2 # rest) st =
     (if TransactionGroup t1 \<noteq> TransactionGroup t2
      then (Some (CannotFindPair (tx_id t1)), t1 # t2 # rest, st)
      else
        let r = migrate t1 t2;
            st1 = st\<lparr>console := console st @ printed r\<rparr>;
            (e, rest', st2) = for_each_pair rest st1
        in (e, fst (rows r) # snd (rows r) # rest', st2))"

text \<open>One turn of the \<open>while\<close> loop: fetch a page, walk it. The row objects are dropped.\<close>

definition scan_batch :: "options \<Rightarrow> state \<Rightarrow> error option \<times> state" where
  "scan_batch opts st =
     (case retrieveValidTransactions opts st of
        (Inl e, st1) \<Rightarrow> (Some e, st1)
      | (Inr transactions, st1) \<Rightarrow>
          (case for_each_pair transactions st1 of (e, in_memory, st2) \<Rightarrow> (e, st2)))"

text \<open>
  The \<open>while (this.offset < count)\<close> loop. It need not end, so it is a partial function:
  \<open>None\<close> is a run that never returns, \<open>Some (Some e, st)\<close> one that throws \<open>e\<close>.
\<close>

partial_function (option) run_loop :: "options \<Rightarrow> jsval \<Rightarrow> state \<Rightarrow> (error option \<times> state) option" where
  "run_loop opts count st =
     (if js_less (offset st) count
      then (case scan_batch opts st of
              (Some e, st1) \<Rightarrow> Some (Some e, st1)
            | (None, st1) \<Rightarrow> run_loop opts count st1)
      else Some (None, st))"

text \<open>\<open>run\<close>: \<open>count = this.options.limit || await this.countValidTransactions()\<close>, then the loop.\<close>

definition run :: "options \<Rightarrow> state \<Rightarrow> (error option \<times> state) option" where
  "run opts st =
     (if js_truthy (limit opts) then run_loop opts (limit opts) st
      else case countValidTransactions st of (n, st1) \<Rightarrow> run_loop opts (JNum n) st1)"

definition vprint :: "options \<Rightarrow> string \<Rightarrow> state \<Rightarrow> state" where
  "vprint opts message st =
     (if verbose opts then st\<lparr>console := console st @ [LogText message]\<rparr> else st)"

text \<open>\<open>new Migration(options)\<close> over a given table.\<close>

definition new_Migration :: "transaction list \<Rightarrow> state" where
  "new_Migration tbl = \<lparr>offset = 0, migrated = 0, table = tbl, console = [], queries = []\<rparr>"

text \<open>\<open>entryPoint\<close>: the connection is closed whether or not the run throws.\<close>

definition entryPoint :: "options \<Rightarrow> transaction list \<Rightarrow> (error option \<times> state) option" where
  "entryPoint opts tbl =
     (case run opts (vprint opts ''Starting to migrate fees'' (new_Migration tbl)) of
        None \<Rightarrow> None
      | Some (Some e, st) \<Rightarrow> Some (Some e, st\<lparr>queries := queries st @ [CloseCall]\<rparr>)
      | Some (None, st) \<Rightarrow>
          Some (None, vprint opts ''Finished migrating fees''
                        (st\<lparr>queries := queries st @ [CloseCall]\<rparr>)))"


text \<open>
  The branch of \<open>migrate\<close> that rewrites fees is reached by a pair that passes the
  group check, does not share a non-null expense id and shares a non-null order id.
\<close>

definition order_linked :: "transaction \<Rightarrow> transaction \<Rightarrow> bool" where
  "order_linked tr1 tr2 =
     (TransactionGroup tr1 = TransactionGroup tr2
      \<and> \<not> (ExpenseId tr1 \<noteq> None \<and> ExpenseId tr1 = ExpenseId tr2)
      \<and> OrderId tr1 \<noteq> None \<and> OrderId tr1 = OrderId tr2)"

section \<open>The specification's wording of the net value\<close>

text \<open>
  The specification writes the net value over the column \<open>amount\<close>:
  \<open>round(amount + hostFee + platformFee + paymentProcessorFee) * fxRate\<close>, and the
  consistency check as equality with \<open>netAmountInCollectiveCurrency\<close>. These two
  definitions follow those words and are compared with \<open>trValue\<close> and \<open>verify\<close>.
\<close>

definition netValue_spec :: "transaction \<Rightarrow> jsnum" where
  "netValue_spec tr =
     times_double
       (Finite (of_int (Math_round (of_int
         (ToNumber (amount tr) +
          ToNumber (hostFeeInHostCurrency tr) +
          ToNumber (platformFeeInHostCurrency tr) +
          ToNumber (paymentProcessorFeeInHostCurrency tr))))))
       (ToNumber_rate (hostCurrencyFxRate tr))"

definition isConsistent_spec :: "transaction \<Rightarrow> bool" where
  "isConsistent_spec tr =
     (Some (netValue_spec tr)
        = map_option (\<lambda>n. Finite (of_int n)) (netAmountInCollectiveCurrency tr))"

section \<open>Example rows\<close>

text \<open>The pair of the specification's end-to-end example, linked to order 7.\<close>

definition example_credit :: transaction where
  "example_credit =
     \<lparr>tx_id = 1, tx_type = ''CREDIT'', TransactionGroup = Some ''g1'', OrderId = Some 7,
      ExpenseId = None, deletedAt = None,
      amount = Some 1000, amountInHostCurrency = Some 1000,
      hostFeeInHostCurrency = Some 0, platformFeeInHostCurrency = Some 0,
      paymentProcessorFeeInHostCurrency = Some 0,
      hostCurrencyFxRate = Some 1, netAmountInCollectiveCurrency = Some 1000\<rparr>"

definition example_debit :: transaction where
  "example_debit =
     \<lparr>tx_id = 2, tx_type = ''DEBIT'', TransactionGroup = Some ''g1'', OrderId = Some 7,
      ExpenseId = None, deletedAt = None,
      amount = Some (- 1000), amountInHostCurrency = Some (- 1000),
      hostFeeInHostCurrency = Some 50, platformFeeInHostCurrency = Some 30,
      paymentProcessorFeeInHostCurrency = Some 20,
      hostCurrencyFxRate = Some 1, netAmountInCollectiveCurrency = Some (- 1000)\<rparr>"

text \<open>A row whose amount in the host currency differs from its amount.\<close>

definition cross_currency_row :: transaction where
  "cross_currency_row =
     \<lparr>tx_id = 3, tx_type = ''CREDIT'', TransactionGroup = Some ''g2'', OrderId = Some 8,
      ExpenseId = None, deletedAt = None,
      amount = Some 1000, amountInHostCurrency = Some 900,
      hostFeeInHostCurrency = Some 0, platformFeeInHostCurrency = Some 0,
      paymentProcessorFeeInHostCurrency = Some 0,
      hostCurrencyFxRate = Some 1, netAmountInCollectiveCurrency = Some 900\<rparr>"

text \<open>A same-currency row with no exchange rate yet, and one with a stored rate of 0.\<close>

definition rate_missing_row :: transaction where
  "rate_missing_row = example_credit\<lparr>hostCurrencyFxRate := None\<rparr>"

definition rate_zero_row :: transaction where
  "rate_zero_row = example_credit\<lparr>hostCurrencyFxRate := Some 0\<rparr>"

text \<open>
  Two rows with a fractional rate: 10 at the rate 0.1 with a stored net amount of 1, and
  100 at the rate 1.1 with a stored net amount of 110.
\<close>

definition tenth_rate_row :: transaction where
  "tenth_rate_row =
     \<lparr>tx_id = 4, tx_type = ''CREDIT'', TransactionGroup = Some ''g3'', OrderId = Some 9,
      ExpenseId = None, deletedAt = None,
      amount = Some 100, amountInHostCurrency = Some 10,
      hostFeeInHostCurrency = Some 0, platformFeeInHostCurrency = Some 0,
      paymentProcessorFeeInHostCurrency = Some 0,
      hostCurrencyFxRate = Some (1 / 10), netAmountInCollectiveCurrency = Some 1\<rparr>"

definition eleven_tenths_rate_row :: transaction where
  "eleven_tenths_rate_row =
     \<lparr>tx_id = 5, tx_type = ''CREDIT'', TransactionGroup = Some ''g4'', OrderId = Some 10,
      ExpenseId = None, deletedAt = None,
      amount = Some 91, amountInHostCurrency = Some 100,
      hostFeeInHostCurrency = Some 0, platformFeeInHostCurrency = Some 0,
      paymentProcessorFeeInHostCurrency = Some 0,
      hostCurrencyFxRate = Some (11 / 10), netAmountInCollectiveCurrency = Some 110\<rparr>"

section \<open>Pairing errors and example command lines\<close>

text \<open>
  The error, if any, with which the \<open>for\<close> loop leaves a page: it depends on the rows'
  groups alone and is the one of the first pair that fails.
\<close>

fun first_pairing_error :: "transaction list \<Rightarrow> error option" where
  "first_pairing_error [] = None"
| "first_pairing_error [t] = Some TypeError"
| "first_pairing_error (t1 # t2 # rest) =
     (if TransactionGroup t1 \<noteq> TransactionGroup t2 then Some (CannotFindPair (tx_id t1))
      else first_pairing_error rest)"

text \<open>The script started with no flag, with \<open>--limit 4\<close>, and with \<open>--notdryrun\<close>.\<close>

definition no_flags :: command_line where
  "no_flags =
     \<lparr>verbose_flag = False, notdryrun_flag = False, limit_arg = None, batch_size_arg = None\<rparr>"

definition limit_four :: command_line where
  "limit_four = no_flags\<lparr>limit_arg := Some ''4''\<rparr>"

definition notdryrun_only :: command_line where
  "notdryrun_only = no_flags\<lparr>notdryrun_flag := True\<rparr>"

section \<open>Dates (the \<open>Date\<close> object used by \<open>getSubscriptionTrialEndDate\<close>)\<close>

text \<open>
  A \<open>Date\<close> holds a time value: milliseconds since 1970-01-01T00:00:00Z, an \<open>int\<close>.
  The functions below are the ones the ECMAScript standard defines the \<open>Date\<close> methods
  with. Dates are taken to be valid and far from the ends of the representable range, so
  no time value is NaN and TimeClip is the identity.
\<close>

definition msPerDay :: int where
  "msPerDay = 86400000"

definition Day :: "int \<Rightarrow> int" where
  "Day t = t div msPerDay"

definition TimeWithinDay :: "int \<Rightarrow> int" where
  "TimeWithinDay t = t mod msPerDay"

text \<open>The day number of the first day of year \<open>y\<close>.\<close>

definition DayFromYear :: "int \<Rightarrow> int" where
  "DayFromYear y = 365 * (y - 1970) + (y - 1969) div 4 - (y - 1901) div 100 + (y - 1601) div 400"

definition leap_year :: "int \<Rightarrow> bool" where
  "leap_year y = (y mod 4 = 0 \<and> (y mod 100 \<noteq> 0 \<or> y mod 400 = 0))"

text \<open>
  The year a day falls in: the largest \<open>y\<close> with \<open>DayFromYear y\<close> not after the day. It is
  computed from an estimate by the mean length of a year, which is off by at most one.
\<close>

definition YearFromDay :: "int \<Rightarrow> int" where
  "YearFromDay d =
     (let guess = 1970 + (400 * d) div 146097 in
      if DayFromYear (guess + 1) \<le> d then guess + 1
      else if d < DayFromYear guess then guess - 1
      else guess)"

definition YearFromTime :: "int \<Rightarrow> int" where
  "YearFromTime t = YearFromDay (Day t)"

definition InLeapYear :: "int \<Rightarrow> bool" where
  "InLeapYear t = leap_year (YearFromTime t)"

definition DayWithinYear :: "int \<Rightarrow> int" where
  "DayWithinYear t = Day t - DayFromYear (YearFromTime t)"

text \<open>The day within the year on which month \<open>m\<close> (0 is January) starts.\<close>

definition month_start :: "int \<Rightarrow> bool \<Rightarrow> int" where
  "month_start m leap =
     (let l = (if leap then 1 else 0) in
      if m = 0 then 0 else if m = 1 then 31 else if m = 2 then 59 + l
      else if m = 3 then 90 + l else if m = 4 then 120 + l else if m = 5 then 151 + l
      else if m = 6 then 181 + l else if m = 7 then 212 + l else if m = 8 then 243 + l
      else if m = 9 then 273 + l else if m = 10 then 304 + l else 334 + l)"

definition MonthFromTime :: "int \<Rightarrow> int" where
  "MonthFromTime t =
     (let n = DayWithinYear t; leap = InLeapYear t in
      if n < month_start 1 leap then 0 else if n < month_start 2 leap then 1
      else if n < month_start 3 leap then 2 else if n < month_start 4 leap then 3
      else if n < month_start 5 leap then 4 else if n < month_start 6 leap then 5
      else if n < month_start 7 leap then 6 else if n < month_start 8 leap then 7
      else if n < month_start 9 leap then 8 else if n < month_start 10 leap then 9
      else if n < month_start 11 leap then 10 else 11)"

definition DateFromTime :: "int \<Rightarrow> int" where
  "DateFromTime t = DayWithinYear t - month_start (MonthFromTime t) (InLeapYear t) + 1"

text \<open>\<open>MakeDay\<close>: a month outside 0..11 carries into the year.\<close>

definition MakeDay :: "int \<Rightarrow> int \<Rightarrow> int \<Rightarrow> int" where
  "MakeDay year month date =
     (let ym = year + month div 12; mn = month mod 12 in
      DayFromYear ym + month_start mn (leap_year ym) + date - 1)"

definition MakeDate :: "int \<Rightarrow> int \<Rightarrow> int" where
  "MakeDate day time = day * msPerDay + time"

text \<open>
  The time zone of the process is a parameter of the model: an offset from UTC, in
  milliseconds, and the later changes of that offset (the starts and ends of daylight
  saving among them), each given by its instant and the offset from that instant on, in
  the order of time.
\<close>

record zone =
  initial_offset :: int
  transitions :: "(int \<times> int) list"

text \<open>The offset in force at an instant.\<close>

fun offset_at_instant :: "int \<Rightarrow> (int \<times> int) list \<Rightarrow> int \<Rightarrow> int" where
  "offset_at_instant current [] t = current"
| "offset_at_instant current ((instant, new) # later) t =
     (if t < instant then current else offset_at_instant new later t)"

text \<open>
  The offset with which a local time is read. A local time that the clock skips at a
  change (the offset grows) or shows twice (it shrinks) is read with the offset before
  the change, as the standard lays down.
\<close>

fun offset_at_local :: "int \<Rightarrow> (int \<times> int) list \<Rightarrow> int \<Rightarrow> int" where
  "offset_at_local current [] t = current"
| "offset_at_local current ((instant, new) # later) t =
     (if t - current < instant \<or> t - new < instant then current
      else offset_at_local new later t)"

text \<open>\<open>LocalTZA(t, isUTC)\<close>, \<open>LocalTime\<close> and \<open>UTC\<close> of the standard.\<close>

definition LocalTZA :: "zone \<Rightarrow> int \<Rightarrow> bool \<Rightarrow> int" where
  "LocalTZA z t isUTC =
     (if isUTC then offset_at_instant (initial_offset z) (transitions z) t
      else offset_at_local (initial_offset z) (transitions z) t)"

definition LocalTime :: "zone \<Rightarrow> int \<Rightarrow> int" where
  "LocalTime z t = t + LocalTZA z t True"

definition UTC :: "zone \<Rightarrow> int \<Rightarrow> int" where
  "UTC z t = t - LocalTZA z t False"

text \<open>
  \<open>setDate\<close>, \<open>getMonth\<close> and \<open>setMonth\<close> work on the local time; the setters return the
  new time value of the object.
\<close>

definition Date_setDate :: "zone \<Rightarrow> int \<Rightarrow> int \<Rightarrow> int" where
  "Date_setDate z tv date =
     (let t = LocalTime z tv in
      UTC z (MakeDate (MakeDay (YearFromTime t) (MonthFromTime t) date) (TimeWithinDay t)))"

definition Date_getMonth :: "zone \<Rightarrow> int \<Rightarrow> int" where
  "Date_getMonth z tv = MonthFromTime (LocalTime z tv)"

definition Date_setMonth :: "zone \<Rightarrow> int \<Rightarrow> int \<Rightarrow> int" where
  "Date_setMonth z tv month =
     (let t = LocalTime z tv in
      UTC z (MakeDate (MakeDay (YearFromTime t) month (DateFromTime t)) (TimeWithinDay t)))"

text \<open>
  The time value of a local calendar date and time of day (in milliseconds from local
  midnight), as \<open>new Date(year, month, date, ...)\<close> builds it.
\<close>

definition Date_local :: "zone \<Rightarrow> int \<Rightarrow> int \<Rightarrow> int \<Rightarrow> int \<Rightarrow> int" where
  "Date_local z year month date time = UTC z (MakeDate (MakeDay year month date) time)"

text \<open>A local time that the clock of the zone shows: reading it back gives the same time.\<close>

definition on_clock :: "zone \<Rightarrow> int \<Rightarrow> bool" where
  "on_clock z t = (LocalTime z (UTC z t) = t)"

text \<open>
  Three zones for the examples: UTC, and New York and Berlin with their two changes of
  the year 2020 (New York: 8 March and 1 November, at 2 o'clock local time; Berlin:
  29 March and 25 October, at 1 o'clock UTC).
\<close>

definition msPerHour :: int where
  "msPerHour = 3600000"

definition utc_zone :: zone where
  "utc_zone = \<lparr>initial_offset = 0, transitions = []\<rparr>"

definition new_york_2020 :: zone where
  "new_york_2020 =
     \<lparr>initial_offset = - 5 * msPerHour,
      transitions = [(MakeDate (MakeDay 2020 2 8) (7 * msPerHour), - 4 * msPerHour),
                     (MakeDate (MakeDay 2020 10 1) (6 * msPerHour), - 5 * msPerHour)]\<rparr>"

definition berlin_2020 :: zone where
  "berlin_2020 =
     \<lparr>initial_offset = 1 * msPerHour,
      transitions = [(MakeDate (MakeDay 2020 2 29) (1 * msPerHour), 2 * msPerHour),
                     (MakeDate (MakeDay 2020 9 25) (1 * msPerHour), 1 * msPerHour)]\<rparr>"

text \<open>
  Sydney in 2017: daylight saving started on 1 October at 2 o'clock local time (16:00 UTC
  of 30 September), so the clock skipped the hour from 2 to 3 on the first of that month.
\<close>

definition sydney_2017 :: zone where
  "sydney_2017 =
     \<lparr>initial_offset = 11 * msPerHour,
      transitions = [(MakeDate (MakeDay 2017 3 1) (16 * msPerHour), 10 * msPerHour),
                     (MakeDate (MakeDay 2017 8 30) (16 * msPerHour), 11 * msPerHour)]\<rparr>"

section \<open>Order processing (the payment flow beside the route tests)\<close>

text \<open>
  \<open>getSubscriptionTrialEndDate\<close>: the copy \<open>newDate\<close> is set to the first of its month,
  then moved on by one month or by twelve; the result is in seconds (\<open>Math.floor\<close> of the
  time value over 1000), or \<open>null\<close> (\<open>None\<close>) for any other interval. The \<open>Date\<close> methods
  work in the time zone of the process, the first argument.
\<close>

definition getSubscriptionTrialEndDate :: "zone \<Rightarrow> int \<Rightarrow> string \<Rightarrow> int option" where
  "getSubscriptionTrialEndDate z originalDate interval =
     (let newDate = originalDate;
          newDate = Date_setDate z newDate 1
      in if interval = ''month''
         then Some (Date_setMonth z newDate (Date_getMonth z newDate + 1) div 1000)
         else if interval = ''year''
         then Some (Date_setMonth z newDate (Date_getMonth z newDate + 12) div 1000)
         else None)"

type_synonym reason = string

text \<open>
  A promise-returning operation: the value it resolves to or the reason it is rejected
  with, and the world it leaves.
\<close>

type_synonym ('w, 'a) promise = "'w \<Rightarrow> (reason + 'a) \<times> 'w"

definition resolve :: "'a \<Rightarrow> ('w, 'a) promise" where
  "resolve a w = (Inr a, w)"

text \<open>\<open>p.then(f)\<close>: a rejection of \<open>p\<close> skips \<open>f\<close>.\<close>

definition then_step :: "('w, 'a) promise \<Rightarrow> ('a \<Rightarrow> ('w, 'b) promise) \<Rightarrow> ('w, 'b) promise" where
  "then_step p f w = (case p w of (Inl e, w1) \<Rightarrow> (Inl e, w1) | (Inr a, w1) \<Rightarrow> f a w1)"

text \<open>
  \<open>p.tap(f)\<close> (bluebird): \<open>f\<close> runs for its effect and the value of \<open>p\<close> is passed on;
  when the promise \<open>f\<close> returns is rejected, so is the chain.
\<close>

definition tap_step :: "('w, 'a) promise \<Rightarrow> ('a \<Rightarrow> ('w, 'b) promise) \<Rightarrow> ('w, 'a) promise" where
  "tap_step p f w =
     (case p w of
        (Inl e, w1) \<Rightarrow> (Inl e, w1)
      | (Inr a, w1) \<Rightarrow> (case f a w1 of (Inl e, w2) \<Rightarrow> (Inl e, w2) | (Inr b, w2) \<Rightarrow> (Inr a, w2)))"

text \<open>
  The objects the flow works on, with the fields it reads or writes. The gateway
  (\<open>../gateways/stripe\<close>), the models and the constants it imports are not among the
  sources: the gateway's calls and the outcome of each write to the store are parameters
  (\<open>services\<close>), the constants are parameters (\<open>settings\<close>).
\<close>

record stripe_account =
  username :: string

record collective =
  collective_id :: nat
  slug :: string
  hostFeePercent :: int
  info :: string
  minimal :: string

record user =
  user_id :: nat
  email :: string
  user_minimal :: string

record subscription =
  interval :: string
  stripeSubscriptionId :: "string option"
  isActive :: bool

record payment_method =
  pm_id :: nat
  token :: string
  customerId :: "string option"
  CustomerIdForHost :: "string \<rightharpoonup> string"
  confirmedAt :: "int option"

record order =
  order_id :: nat
  totalAmount :: int
  currency :: string
  description :: string
  createdAt :: int
  FromCollectiveId :: nat
  TierId :: "nat option"
  fromCollective :: collective
  toCollective :: collective
  createdByUser :: user
  tier :: "string option"

record charge_request =
  charge_amount :: int
  charge_currency :: string
  charge_source :: string
  charge_description :: string
  application_fee :: int
  charge_from :: string
  charge_to :: string
  customerEmail :: string
  charge_PaymentMethodId :: nat

record charge =
  charge_id :: string
  balance_transaction :: string

record balance_tx =
  balance_amount :: int
  balance_currency :: string

record fees =
  applicationFee :: int
  stripeFee :: int

record plan_request =
  plan_interval :: string
  plan_amount :: int
  plan_currency :: string

record plan =
  plan_id :: string

record subscription_request =
  request_plan :: string
  application_fee_percent :: int
  trial_end :: "int option"
  request_from :: string
  request_to :: string
  request_PaymentMethodId :: nat

record transaction_payload =
  payload_type :: string
  payload_OrderId :: nat
  payload_amount :: int
  payload_currency :: string
  txnCurrency :: string
  amountInTxnCurrency :: int
  txnCurrencyFxRate :: jsnum
  hostFeeInTxnCurrency :: int
  platformFeeInTxnCurrency :: int
  paymentProcessorFeeInTxnCurrency :: int
  payload_description :: string
  data_charge :: charge
  data_balanceTransaction :: balance_tx

record payload =
  CreatedByUserId :: nat
  payload_FromCollectiveId :: nat
  ToCollectiveId :: nat
  payload_paymentMethod :: payment_method
  payload_transaction :: transaction_payload

record ledger_row =
  row_type :: string
  row_payload :: payload

record activity =
  activity_type :: string
  activity_collective :: string
  activity_user :: string
  activity_tier :: "string option"
  activity_subscription :: "subscription option"

text \<open>Every call that leaves the process, to the gateway or to the store.\<close>

datatype call =
    GetHostStripeAccount
  | CreateCustomer
  | CreateToken
  | CreateCharge
  | RetrieveBalanceTransaction
  | GetOrCreatePlan
  | CreateSubscription
  | CreateFromPayload
  | PaymentMethodUpdateCustomerId
  | PaymentMethodSave
  | SubscriptionUpdate
  | SubscriptionActivate
  | ActivityCreate
  | FindOrAddUserWithRole
  | OrderUpdate
  | PaymentMethodUpdateConfirmedAt

record settings =
  OC_FEE_PERCENT :: int
  website :: string
  DONATION :: string
  BACKER :: string
  SUBSCRIPTION_CONFIRMED :: string
  timeZone :: zone

record services =
  getHostStripeAccount :: "collective \<Rightarrow> reason + stripe_account"
  createCustomer :: "stripe_account option \<Rightarrow> string \<Rightarrow> string \<Rightarrow> string \<Rightarrow> reason + string"
  createToken :: "stripe_account \<Rightarrow> string option \<Rightarrow> reason + string"
  createCharge :: "stripe_account \<Rightarrow> charge_request \<Rightarrow> reason + charge"
  retrieveBalanceTransaction :: "stripe_account \<Rightarrow> string \<Rightarrow> reason + balance_tx"
  extractFees :: "balance_tx \<Rightarrow> fees"
  getOrCreatePlan :: "stripe_account \<Rightarrow> plan_request \<Rightarrow> reason + plan"
  createSubscription :: "stripe_account \<Rightarrow> string \<Rightarrow> subscription_request \<Rightarrow> reason + string"
  store_outcome :: "call \<Rightarrow> reason option"
  processed_time :: int
  confirmed_time :: int

text \<open>
  What a run can change: the payment method, subscription and \<open>order.processedAt\<close> as
  they are in memory, the persisted Transaction rows, activities and memberships, and the
  list of calls made so far, each with the reason it was rejected with, if it was.
\<close>

record world =
  paymentMethod :: payment_method
  subscription_row :: "subscription option"
  processedAt :: "int option"
  ledger :: "ledger_row list"
  activities :: "activity list"
  members :: "(nat \<times> string) list"
  calls :: "(call \<times> reason option) list"

definition rejected :: "reason + 'a \<Rightarrow> reason option" where
  "rejected r = (case r of Inl e \<Rightarrow> Some e | Inr a \<Rightarrow> None)"

text \<open>A call to the gateway: its outcome is the gateway's, and it is recorded.\<close>

definition gateway :: "call \<Rightarrow> reason + 'a \<Rightarrow> (world, 'a) promise" where
  "gateway c outcome w = (outcome, w\<lparr>calls := calls w @ [(c, rejected outcome)]\<rparr>)"

text \<open>
  \<open>instance.update(values)\<close> and the like, waited for by the chain: the values are set on
  the object in memory (the change \<open>f\<close>), then saved; a failed save rejects the chain.
\<close>

definition store_update :: "services \<Rightarrow> call \<Rightarrow> (world \<Rightarrow> world) \<Rightarrow> (world, unit) promise" where
  "store_update env c f w =
     (case store_outcome env c of
        Some e \<Rightarrow> (Inl e, (f w)\<lparr>calls := calls (f w) @ [(c, Some e)]\<rparr>)
      | None \<Rightarrow> (Inr (), (f w)\<lparr>calls := calls (f w) @ [(c, None)]\<rparr>))"

text \<open>
  A call that creates rows, waited for by the chain: the rows exist (the change \<open>f\<close>)
  only when it succeeds; a failure rejects the chain.
\<close>

definition store_create :: "services \<Rightarrow> call \<Rightarrow> (world \<Rightarrow> world) \<Rightarrow> (world, unit) promise" where
  "store_create env c f w =
     (case store_outcome env c of
        Some e \<Rightarrow> (Inl e, w\<lparr>calls := calls w @ [(c, Some e)]\<rparr>)
      | None \<Rightarrow> (Inr (), (f w)\<lparr>calls := calls (f w) @ [(c, None)]\<rparr>))"

text \<open>A write whose promise is dropped: nothing waits for it and its failure is not seen.\<close>

definition store_unawaited :: "services \<Rightarrow> call \<Rightarrow> (world, unit) promise" where
  "store_unawaited env c w = (Inr (), w\<lparr>calls := calls w @ [(c, store_outcome env c)]\<rparr>)"

definition truthy_string :: "string option \<Rightarrow> bool" where
  "truthy_string v = (case v of None \<Rightarrow> False | Some s \<Rightarrow> s \<noteq> [])"

text \<open>\<open>parseInt(a * b / 100, 10)\<close> for integers: the quotient cut towards zero.\<close>

definition parseInt_percent :: "int \<Rightarrow> int \<Rightarrow> int" where
  "parseInt_percent a b = (if a * b < 0 then - ((- (a * b)) div 100) else (a * b) div 100)"

text \<open>
  \<open>getOrCreateCustomerIdForHost\<close>: the cached id for this host when there is one, else a
  token and a customer are created and the id is cached (the save is not waited for).
\<close>

definition getOrCreateCustomerIdForHost ::
  "services \<Rightarrow> order \<Rightarrow> stripe_account \<Rightarrow> (world, string) promise" where
  "getOrCreateCustomerIdForHost env ord hostStripeAccount w =
     (let create =
        then_step (gateway CreateToken
                     (createToken env hostStripeAccount (customerId (paymentMethod w))))
          (\<lambda>token_id.
            tap_step
              (gateway CreateCustomer
                 (createCustomer env (Some hostStripeAccount) token_id
                    (email (createdByUser ord)) (info (fromCollective ord))))
              (\<lambda>customer_id w1.
                 store_unawaited env PaymentMethodSave
                   (w1\<lparr>paymentMethod := (paymentMethod w1)
                        \<lparr>CustomerIdForHost :=
                           (CustomerIdForHost (paymentMethod w1))
                             (username hostStripeAccount \<mapsto> customer_id)\<rparr>\<rparr>)))
      in case CustomerIdForHost (paymentMethod w) (username hostStripeAccount) of
           None \<Rightarrow> create w
         | Some cached \<Rightarrow> if cached \<noteq> [] then resolve cached w else create w)"

text \<open>
  \<open>createSubscription\<close>, the local function of \<open>processOrder\<close>; the closure variables
  \<open>hostStripePlan\<close> and \<open>hostStripeCustomerId\<close> are the bound variables of the chain.
\<close>

definition createSubscription_step ::
  "settings \<Rightarrow> services \<Rightarrow> order \<Rightarrow> subscription \<Rightarrow> stripe_account \<Rightarrow> (world, unit) promise" where
  "createSubscription_step cfg env ord sub hostStripeAccount =
     then_step (gateway GetOrCreatePlan
                  (getOrCreatePlan env hostStripeAccount
                     \<lparr>plan_interval = interval sub, plan_amount = totalAmount ord,
                      plan_currency = currency ord\<rparr>))
       (\<lambda>hostStripePlan.
     then_step (getOrCreateCustomerIdForHost env ord hostStripeAccount)
       (\<lambda>hostStripeCustomerId.
     then_step (\<lambda>w. gateway CreateSubscription
                  (createSubscription env hostStripeAccount hostStripeCustomerId
                     \<lparr>request_plan = plan_id hostStripePlan,
                      application_fee_percent = OC_FEE_PERCENT cfg,
                      trial_end = getSubscriptionTrialEndDate (timeZone cfg) (createdAt ord) (interval sub),
                      request_from = website cfg @ ''/'' @ slug (fromCollective ord),
                      request_to = website cfg @ ''/'' @ slug (toCollective ord),
                      request_PaymentMethodId = pm_id (paymentMethod w)\<rparr>) w)
       (\<lambda>stripeSubscription_id.
     then_step (store_update env SubscriptionUpdate
                  (\<lambda>w. w\<lparr>subscription_row :=
                     map_option (\<lambda>s. s\<lparr>stripeSubscriptionId := Some stripeSubscription_id\<rparr>)
                       (subscription_row w)\<rparr>))
       (\<lambda>_.
     then_step (store_update env SubscriptionActivate
                  (\<lambda>w. w\<lparr>subscription_row :=
                     map_option (\<lambda>s. s\<lparr>isActive := True\<rparr>) (subscription_row w)\<rparr>))
       (\<lambda>_.
          store_create env ActivityCreate
            (\<lambda>w. w\<lparr>activities := activities w @
               [\<lparr>activity_type = SUBSCRIPTION_CONFIRMED cfg,
                 activity_collective = minimal (toCollective ord),
                 activity_user = user_minimal (createdByUser ord),
                 activity_tier = tier ord,
                 activity_subscription = subscription_row w\<rparr>]\<rparr>))))))"

text \<open>
  Modelled from the spec: \<open>models.Transaction.createFromPayload\<close> is not among the
  sources. It persists a CREDIT/DEBIT pair from one computed payload and resolves to
  the pair.
\<close>

definition createFromPayload :: "services \<Rightarrow> payload \<Rightarrow> (world, ledger_row list) promise" where
  "createFromPayload env p =
     (let pair = [\<lparr>row_type = ''CREDIT'', row_payload = p\<rparr>,
                  \<lparr>row_type = ''DEBIT'', row_payload = p\<rparr>] in
      then_step (store_create env CreateFromPayload (\<lambda>w. w\<lparr>ledger := ledger w @ pair\<rparr>))
        (\<lambda>_. resolve pair))"

text \<open>\<open>createChargeAndTransactions\<close>\<close>

definition createChargeAndTransactions ::
  "settings \<Rightarrow> services \<Rightarrow> order \<Rightarrow> stripe_account \<Rightarrow> string \<Rightarrow> (world, ledger_row list) promise" where
  "createChargeAndTransactions cfg env ord hostStripeAccount hostStripeToken_id =
     then_step (\<lambda>w. gateway CreateCharge
                  (createCharge env hostStripeAccount
                     \<lparr>charge_amount = totalAmount ord,
                      charge_currency = currency ord,
                      charge_source = hostStripeToken_id,
                      charge_description = description ord,
                      application_fee = parseInt_percent (totalAmount ord) (OC_FEE_PERCENT cfg),
                      charge_from = website cfg @ ''/'' @ slug (fromCollective ord),
                      charge_to = website cfg @ ''/'' @ slug (toCollective ord),
                      customerEmail = email (createdByUser ord),
                      charge_PaymentMethodId = pm_id (paymentMethod w)\<rparr>) w)
       (\<lambda>charge.
     then_step (gateway RetrieveBalanceTransaction
                  (retrieveBalanceTransaction env hostStripeAccount (balance_transaction charge)))
       (\<lambda>balanceTransaction w.
          createFromPayload env
            \<lparr>CreatedByUserId = user_id (createdByUser ord),
             payload_FromCollectiveId = FromCollectiveId ord,
             ToCollectiveId = collective_id (toCollective ord),
             payload_paymentMethod = paymentMethod w,
             payload_transaction =
               \<lparr>payload_type = DONATION cfg,
                payload_OrderId = order_id ord,
                payload_amount = totalAmount ord,
                payload_currency = currency ord,
                txnCurrency = balance_currency balanceTransaction,
                amountInTxnCurrency = balance_amount balanceTransaction,
                txnCurrencyFxRate =
                  divide_integers (totalAmount ord) (balance_amount balanceTransaction),
                hostFeeInTxnCurrency =
                  parseInt_percent (balance_amount balanceTransaction)
                    (hostFeePercent (toCollective ord)),
                platformFeeInTxnCurrency = applicationFee (extractFees env balanceTransaction),
                paymentProcessorFeeInTxnCurrency = stripeFee (extractFees env balanceTransaction),
                payload_description = description ord,
                data_charge = charge,
                data_balanceTransaction = balanceTransaction\<rparr>\<rparr> w))"

text \<open>
  The second and third step of the chain in \<open>processOrder\<close>: get or create a customer
  under the platform stripe account, and remember a created one on the payment method
  (the update is not waited for).
\<close>

definition getOrCreatePlatformCustomer :: "services \<Rightarrow> order \<Rightarrow> (world, string) promise" where
  "getOrCreatePlatformCustomer env ord =
     tap_step
       (\<lambda>w. case customerId (paymentMethod w) of
               None \<Rightarrow>
                 gateway CreateCustomer
                   (createCustomer env None (token (paymentMethod w))
                      (email (createdByUser ord)) (info (fromCollective ord))) w
             | Some existing \<Rightarrow>
                 if existing \<noteq> [] then resolve existing w
                 else gateway CreateCustomer
                        (createCustomer env None (token (paymentMethod w))
                           (email (createdByUser ord)) (info (fromCollective ord))) w)
       (\<lambda>platformCustomerId w.
          if \<not> truthy_string (customerId (paymentMethod w))
          then store_unawaited env PaymentMethodUpdateCustomerId
                 (w\<lparr>paymentMethod := (paymentMethod w)\<lparr>customerId := Some platformCustomerId\<rparr>\<rparr>)
          else resolve () w)"

text \<open>
  Modelled from the spec: \<open>toCollective.findOrAddUserWithRole\<close> is not among the
  sources; it is an idempotent membership grant.
\<close>

definition findOrAddUserWithRole :: "nat \<Rightarrow> string \<Rightarrow> world \<Rightarrow> world" where
  "findOrAddUserWithRole uid role w =
     (if (uid, role) \<in> set (members w) then w else w\<lparr>members := members w @ [(uid, role)]\<rparr>)"

text \<open>
  \<open>processOrder\<close>: the chain of the source, step by step. The closure variables
  \<open>hostStripeAccount\<close>, \<open>hostStripeToken\<close> and \<open>transactions\<close> are bound variables.
\<close>

definition processOrder :: "settings \<Rightarrow> services \<Rightarrow> order \<Rightarrow> (world, ledger_row list) promise" where
  "processOrder cfg env ord =
     then_step (gateway GetHostStripeAccount (getHostStripeAccount env (toCollective ord)))
       (\<lambda>hostStripeAccount.
     then_step (getOrCreatePlatformCustomer env ord)
       (\<lambda>_.
     then_step (\<lambda>w. gateway CreateToken
                  (createToken env hostStripeAccount (customerId (paymentMethod w))) w)
       (\<lambda>hostStripeToken_id.
     then_step
       (tap_step
          (tap_step
             (tap_step
                (tap_step
                   (createChargeAndTransactions cfg env ord hostStripeAccount hostStripeToken_id)
                   (\<lambda>transactions w.
                      case subscription_row w of
                        None \<Rightarrow> resolve () w
                      | Some sub \<Rightarrow> createSubscription_step cfg env ord sub hostStripeAccount w))
                (\<lambda>transactions.
                   store_create env FindOrAddUserWithRole
                     (findOrAddUserWithRole (user_id (createdByUser ord)) (BACKER cfg))))
             (\<lambda>transactions.
                store_update env OrderUpdate (\<lambda>w. w\<lparr>processedAt := Some (processed_time env)\<rparr>)))
          (\<lambda>transactions.
             store_update env PaymentMethodUpdateConfirmedAt
               (\<lambda>w. w\<lparr>paymentMethod := (paymentMethod w)\<lparr>confirmedAt := Some (confirmed_time env)\<rparr>\<rparr>)))
       (\<lambda>transactions. resolve transactions))))"

section \<open>Calls made by a run, and an example run\<close>

text \<open>The calls a run has added to the list, and whether a call is among some calls.\<close>

definition new_calls :: "world \<Rightarrow> world \<Rightarrow> (call \<times> reason option) list" where
  "new_calls w w' = drop (length (calls w)) (calls w')"

definition called :: "call \<Rightarrow> (call \<times> reason option) list \<Rightarrow> bool" where
  "called c cs = (c \<in> fst ` set cs)"

text \<open>
  A gateway on which everything succeeds but \<open>createSubscription\<close>, a store on which
  every write succeeds, and a monthly order of a new payment method.
\<close>

definition failing_gateway :: services where
  "failing_gateway =
     \<lparr>getHostStripeAccount = (\<lambda>c. Inr \<lparr>username = ''host''\<rparr>),
      createCustomer = (\<lambda>account tok mail profile. Inr ''cus_1''),
      createToken = (\<lambda>account customer. Inr ''tok_1''),
      createCharge = (\<lambda>account request. Inr \<lparr>charge_id = ''ch_1'', balance_transaction = ''txn_1''\<rparr>),
      retrieveBalanceTransaction =
        (\<lambda>account ref. Inr \<lparr>balance_amount = 1000, balance_currency = ''USD''\<rparr>),
      extractFees = (\<lambda>b. \<lparr>applicationFee = 50, stripeFee = 59\<rparr>),
      getOrCreatePlan = (\<lambda>account request. Inr \<lparr>plan_id = ''plan_1''\<rparr>),
      createSubscription = (\<lambda>account customer request. Inl ''gateway down''),
      store_outcome = (\<lambda>c. None),
      processed_time = 1584230400000,
      confirmed_time = 1584230400001\<rparr>"

definition example_settings :: settings where
  "example_settings =
     \<lparr>OC_FEE_PERCENT = 5, website = ''https://example.org'', DONATION = ''DONATION'',
      BACKER = ''BACKER'', SUBSCRIPTION_CONFIRMED = ''subscription.confirmed'',
      timeZone = utc_zone\<rparr>"

definition example_order :: order where
  "example_order =
     \<lparr>order_id = 1, totalAmount = 1000, currency = ''USD'', description = ''monthly donation'',
      createdAt = 1584230400000, FromCollectiveId = 2, TierId = None,
      fromCollective = \<lparr>collective_id = 2, slug = ''donor'', hostFeePercent = 0,
                         info = ''donor'', minimal = ''donor''\<rparr>,
      toCollective = \<lparr>collective_id = 3, slug = ''project'', hostFeePercent = 10,
                       info = ''project'', minimal = ''project''\<rparr>,
      createdByUser = \<lparr>user_id = 4, email = ''donor@example.org'', user_minimal = ''donor''\<rparr>,
      tier = None\<rparr>"

definition example_world :: world where
  "example_world =
     \<lparr>paymentMethod = \<lparr>pm_id = 5, token = ''tok_card'', customerId = None,
                        CustomerIdForHost = Map.empty, confirmedAt = None\<rparr>,
      subscription_row = Some \<lparr>interval = ''month'', stripeSubscriptionId = None, isActive = False\<rparr>,
      processedAt = None, ledger = [], activities = [], members = [], calls = []\<rparr>"


section \<open>Properties of the doubles\<close>

lemma pow2_powi: "pow2 e = 2 powi e"
  by (simp add: pow2_def power_int_def field_simps)

lemma pow2_pos: "0 < pow2 e"
  by (simp add: pow2_powi)

lemma pow2_diff: "pow2 (a - b) = pow2 a / pow2 b"
  by (simp add: pow2_powi power_int_diff)

lemma pow2_mono: "a \<le> b \<Longrightarrow> pow2 a \<le> pow2 b"
  by (simp add: pow2_powi power_int_increasing)

lemma pow2_strict_mono: "a < b \<Longrightarrow> pow2 a < pow2 b"
  by (simp add: pow2_powi power_int_strict_increasing)

lemma pow2_of_nat: "pow2 (int n) = 2 ^ n"
  by (simp add: pow2_def)

text \<open>The exponent is the right one: the magnitude lies between two powers of two.\<close>

lemma binary_exponent_bounds:
  assumes "x \<noteq> 0"
  shows "pow2 (binary_exponent x) \<le> \<bar>x\<bar>" and "\<bar>x\<bar> < pow2 (binary_exponent x + 1)"
proof -
  obtain p q where pq: "quotient_of \<bar>x\<bar> = (p, q)" by (cases "quotient_of \<bar>x\<bar>")
  then have q: "0 < q" and x: "\<bar>x\<bar> = of_int p / of_int q"
    using quotient_of_denom_pos[OF pq] quotient_of_div[OF pq] by simp_all
  from assms have "0 < \<bar>x\<bar>" by simp
  with x q have p: "0 < p" by (simp add: zero_less_divide_iff)
  let ?e = "bitlen p - bitlen q"
  have bp: "2 ^ nat (bitlen p - 1) \<le> p" "p < 2 ^ nat (bitlen p)"
    using bitlen_bounds[OF p] by simp_all
  have bq: "2 ^ nat (bitlen q - 1) \<le> q" "q < 2 ^ nat (bitlen q)"
    using bitlen_bounds[OF q] by simp_all
  have "bitlen p \<noteq> 0" "bitlen q \<noteq> 0"
    using p q by (simp_all add: bitlen_eq_zero_iff)
  then have lp: "1 \<le> bitlen p" and lq: "1 \<le> bitlen q"
    using bitlen_nonneg[of p] bitlen_nonneg[of q] by linarith+
  have P1: "pow2 (bitlen p - 1) \<le> of_int p"
  proof -
    have "(of_int (2 ^ nat (bitlen p - 1)) :: rat) \<le> of_int p"
      using bp(1) by (simp only: of_int_le_iff)
    with lp show ?thesis by (simp add: pow2_def)
  qed
  have P2: "of_int p < pow2 (bitlen p)"
  proof -
    have "(of_int p :: rat) < of_int (2 ^ nat (bitlen p))"
      using bp(2) by (simp only: of_int_less_iff)
    with lp show ?thesis by (simp add: pow2_def)
  qed
  have Q1: "pow2 (bitlen q - 1) \<le> of_int q"
  proof -
    have "(of_int (2 ^ nat (bitlen q - 1)) :: rat) \<le> of_int q"
      using bq(1) by (simp only: of_int_le_iff)
    with lq show ?thesis by (simp add: pow2_def)
  qed
  have Q2: "of_int q < pow2 (bitlen q)"
  proof -
    have "(of_int q :: rat) < of_int (2 ^ nat (bitlen q))"
      using bq(2) by (simp only: of_int_less_iff)
    with lq show ?thesis by (simp add: pow2_def)
  qed
  have qpos: "(0::rat) < of_int q" using q by simp
  have lower: "pow2 (?e - 1) < \<bar>x\<bar>"
  proof -
    have "pow2 (?e - 1) = pow2 (bitlen p - 1) / pow2 (bitlen q)"
      using pow2_diff[of "bitlen p - 1" "bitlen q"] by (simp add: algebra_simps)
    also have "\<dots> \<le> of_int p / pow2 (bitlen q)"
      using P1 pow2_pos[of "bitlen q"] by (simp add: divide_right_mono)
    also have "\<dots> < of_int p / of_int q"
      using Q2 qpos p by (simp add: divide_strict_left_mono)
    finally show ?thesis using x by simp
  qed
  have upper: "\<bar>x\<bar> < pow2 (?e + 1)"
  proof -
    have "\<bar>x\<bar> = of_int p / of_int q" by (fact x)
    also have "\<dots> < pow2 (bitlen p) / of_int q"
      using P2 qpos by (simp add: divide_strict_right_mono)
    also have "\<dots> \<le> pow2 (bitlen p) / pow2 (bitlen q - 1)"
      using Q1 pow2_pos[of "bitlen q - 1"] pow2_pos[of "bitlen p"]
      by (simp add: divide_left_mono)
    also have "\<dots> = pow2 (?e + 1)"
      using pow2_diff[of "bitlen p" "bitlen q - 1"] by (simp add: algebra_simps)
    finally show ?thesis .
  qed
  have be: "binary_exponent x = (if \<bar>x\<bar> < pow2 ?e then ?e - 1 else ?e)"
    by (simp add: binary_exponent_def pq Let_def)
  show "pow2 (binary_exponent x) \<le> \<bar>x\<bar>"
    using lower by (simp add: be)
  show "\<bar>x\<bar> < pow2 (binary_exponent x + 1)"
    using upper by (simp add: be)
qed


lemma round_half_even_of_int: "round_half_even (of_int k) = k"
  by (simp add: round_half_even_def)

lemma round_half_even_error: "\<bar>of_int (round_half_even z) - z\<bar> \<le> 1 / 2"
proof -
  have "of_int \<lfloor>z\<rfloor> \<le> z" "z < of_int \<lfloor>z\<rfloor> + 1" by linarith+
  then show ?thesis
    by (auto simp add: round_half_even_def Let_def)
qed

lemma round_half_even_zero_iff:
  assumes "0 \<le> z"
  shows "round_half_even z = 0 \<longleftrightarrow> z \<le> 1 / 2"
proof (cases "z < 1")
  case True
  with assms have "\<lfloor>z\<rfloor> = 0" by (simp add: floor_eq_iff)
  then show ?thesis by (auto simp add: round_half_even_def Let_def)
next
  case False
  then have "1 \<le> \<lfloor>z\<rfloor>" by (simp add: le_floor_iff)
  moreover have "\<lfloor>z\<rfloor> \<le> round_half_even z"
    by (auto simp add: round_half_even_def Let_def)
  ultimately have "1 \<le> round_half_even z" by linarith
  then show ?thesis using False by simp
qed

text \<open>Only a magnitude of at most \<open>2^-1075\<close>, half the smallest double, is read as 0.\<close>

lemma to_double_zero_iff: "to_double x = Finite 0 \<longleftrightarrow> \<bar>x\<bar> \<le> pow2 (- 1075)"
proof (cases "x = 0")
  case True
  then show ?thesis using pow2_pos[of "- 1075"] by (simp add: to_double_def)
next
  case False
  define e where "e = max (binary_exponent x) (- 1022)"
  define ulp where "ulp = pow2 (e - 52)"
  define m where "m = round_half_even (\<bar>x\<bar> / ulp)"
  have ulp: "0 < ulp" unfolding ulp_def by (rule pow2_pos)
  have half: "ulp / 2 = pow2 (e - 53)"
    using pow2_diff[of "e - 52" 1] by (simp add: ulp_def pow2_def[of 1])
  have lo: "pow2 (binary_exponent x) \<le> \<bar>x\<bar>"
    using binary_exponent_bounds(1)[OF False] .
  have small: "\<bar>x\<bar> \<le> pow2 (e - 53) \<longleftrightarrow> \<bar>x\<bar> \<le> pow2 (- 1075)"
  proof
    assume a: "\<bar>x\<bar> \<le> pow2 (e - 53)"
    have "e \<noteq> binary_exponent x"
    proof
      assume "e = binary_exponent x"
      with a lo have "pow2 e \<le> pow2 (e - 53)" by simp
      moreover have "pow2 (e - 53) < pow2 e"
        by (rule pow2_strict_mono) simp
      ultimately show False by simp
    qed
    then have "e = - 1022" unfolding e_def by (simp add: max_def split: if_splits)
    with a show "\<bar>x\<bar> \<le> pow2 (- 1075)" by simp
  next
    assume a: "\<bar>x\<bar> \<le> pow2 (- 1075)"
    have "- 1075 \<le> e - 53" unfolding e_def by simp
    from pow2_mono[OF this] a show "\<bar>x\<bar> \<le> pow2 (e - 53)" by simp
  qed
  have m0: "m = 0 \<longleftrightarrow> \<bar>x\<bar> \<le> pow2 (e - 53)"
  proof -
    have "0 \<le> \<bar>x\<bar> / ulp" using ulp by simp
    from round_half_even_zero_iff[OF this]
    have "m = 0 \<longleftrightarrow> \<bar>x\<bar> / ulp \<le> 1 / 2" unfolding m_def .
    also have "\<dots> \<longleftrightarrow> \<bar>x\<bar> \<le> ulp / 2"
      using ulp by (simp add: field_simps)
    finally show ?thesis unfolding half .
  qed
  have big: "\<not> \<bar>x\<bar> \<le> pow2 (- 1075)" if "1023 \<le> e"
  proof -
    from that have "e = binary_exponent x" unfolding e_def by (simp add: max_def split: if_splits)
    with lo have "pow2 e \<le> \<bar>x\<bar>" by simp
    moreover have "pow2 (- 1075) < pow2 e"
      by (rule pow2_strict_mono) (use that in simp)
    ultimately show ?thesis by simp
  qed
  have T: "to_double x =
      (if 1023 < e \<or> (e = 1023 \<and> 2 ^ 53 \<le> m)
       then (if 0 < x then PlusInfinity else MinusInfinity)
       else Finite (if 0 < x then of_int m * ulp else - (of_int m * ulp)))"
    using False unfolding to_double_def Let_def e_def ulp_def m_def by (simp only: if_False)
  show ?thesis
  proof (cases "1023 < e \<or> (e = 1023 \<and> 2 ^ 53 \<le> m)")
    case True
    then have "1023 \<le> e" by auto
    from big[OF this] True show ?thesis by (simp add: T)
  next
    case c: False
    have "to_double x = Finite 0 \<longleftrightarrow> m = 0"
      using c ulp by (simp add: T)
    with m0 small show ?thesis by simp
  qed
qed

text \<open>A whole number of a magnitude up to \<open>2^53\<close> is a double.\<close>

lemma to_double_of_int:
  assumes "\<bar>n\<bar> \<le> 2 ^ 53"
  shows "to_double (of_int n) = Finite (of_int n)"
proof (cases "n = 0")
  case True
  then show ?thesis by (simp add: to_double_def)
next
  case False
  let ?x = "of_int n :: rat"
  define b where "b = binary_exponent ?x"
  have x0: "?x \<noteq> 0" using False by simp
  have lo: "pow2 b \<le> \<bar>?x\<bar>" and hi: "\<bar>?x\<bar> < pow2 (b + 1)"
    unfolding b_def using binary_exponent_bounds[OF x0] by simp_all
  have one: "1 \<le> \<bar>?x\<bar>"
  proof -
    have "1 \<le> \<bar>n\<bar>" using False by simp
    then have "(of_int 1 :: rat) \<le> of_int \<bar>n\<bar>" by (simp only: of_int_le_iff)
    then show ?thesis by simp
  qed
  have top: "\<bar>?x\<bar> \<le> pow2 53"
  proof -
    have "(of_int \<bar>n\<bar> :: rat) \<le> of_int (2 ^ 53)" using assms by (simp only: of_int_le_iff)
    then show ?thesis by (simp add: pow2_def)
  qed
  have b0: "0 \<le> b"
  proof (rule ccontr)
    assume "\<not> 0 \<le> b"
    then have "b + 1 \<le> 0" by simp
    from pow2_mono[OF this] hi one show False by (simp add: pow2_def)
  qed
  have b53: "b \<le> 53"
  proof (rule ccontr)
    assume "\<not> b \<le> 53"
    then have "54 \<le> b" by simp
    from pow2_mono[OF this] lo top have "pow2 54 \<le> pow2 53" by simp
    then show False by (simp add: pow2_def)
  qed
  have e: "max b (- 1022) = b" using b0 by simp
  define ulp where "ulp = pow2 (b - 52)"
  have ulp: "0 < ulp" unfolding ulp_def by (rule pow2_pos)
  obtain k :: int where k: "\<bar>?x\<bar> / ulp = of_int k"
  proof (cases "b = 53")
    case True
    with lo top have "\<bar>?x\<bar> = pow2 53" by simp
    then have "\<bar>?x\<bar> / ulp = of_int (2 ^ 52)"
      unfolding ulp_def True by (simp add: pow2_def)
    then show ?thesis by (rule that)
  next
    case False
    with b53 have "0 \<le> 52 - b" by simp
    have "\<bar>?x\<bar> / ulp = \<bar>?x\<bar> * pow2 (52 - b)"
      using pow2_diff[of 0 "b - 52"] by (simp add: ulp_def pow2_def[of 0] field_simps)
    also have "\<dots> = of_int (\<bar>n\<bar> * 2 ^ nat (52 - b))"
      using \<open>0 \<le> 52 - b\<close> by (simp add: pow2_def)
    finally show ?thesis by (rule that)
  qed
  have kb: "k < 2 ^ 53"
  proof -
    have "\<bar>?x\<bar> / ulp < pow2 (b + 1) / ulp"
      using hi ulp by (simp add: divide_strict_right_mono)
    also have "\<dots> = pow2 53"
      using pow2_diff[of "b + 1" "b - 52"] by (simp add: ulp_def)
    finally have "(of_int k :: rat) < of_int (2 ^ 53)" unfolding k by (simp add: pow2_def)
    then show ?thesis by (simp only: of_int_less_iff)
  qed
  have m: "round_half_even (\<bar>?x\<bar> / ulp) = k"
    unfolding k by (rule round_half_even_of_int)
  have scaled: "of_int k * ulp = \<bar>?x\<bar>"
    using k ulp by (simp add: field_simps)
  define r where "r = (if 0 < ?x then of_int k * ulp else - (of_int k * ulp))"
  have r: "r = ?x" unfolding r_def scaled by simp
  have T: "to_double ?x =
      (if 1023 < b \<or> (b = 1023 \<and> 2 ^ 53 \<le> k)
       then (if 0 < ?x then PlusInfinity else MinusInfinity)
       else Finite r)"
    using x0
    unfolding to_double_def Let_def b_def[symmetric] e ulp_def[symmetric] m r_def
    by (simp only: if_False)
  have "\<not> (1023 < b \<or> (b = 1023 \<and> 2 ^ 53 \<le> k))" using b53 by simp
  then show ?thesis unfolding T r by (simp only: if_False)
qed


text \<open>
  A finite result is a whole number of at most \<open>2^53\<close> units and lies within half a unit
  of the number read.
\<close>

lemma to_double_nearest:
  assumes "to_double x = Finite y"
  defines "ulp \<equiv> pow2 (max (binary_exponent x) (- 1022) - 52)"
  shows "\<bar>y - x\<bar> \<le> ulp / 2" and "\<exists>m. \<bar>m\<bar> \<le> 2 ^ 53 \<and> y = of_int m * ulp"
proof -
  have ulp: "0 < ulp" unfolding ulp_def by (rule pow2_pos)
  have "\<bar>y - x\<bar> \<le> ulp / 2 \<and> (\<exists>m. \<bar>m\<bar> \<le> 2 ^ 53 \<and> y = of_int m * ulp)"
  proof (cases "x = 0")
    case True
    with assms(1) have "y = 0" by (simp add: to_double_def)
    with True ulp show ?thesis by (auto intro: exI[of _ 0])
  next
    case False
    define e where "e = max (binary_exponent x) (- 1022)"
    define m where "m = round_half_even (\<bar>x\<bar> / ulp)"
    have T: "to_double x =
        (if 1023 < e \<or> (e = 1023 \<and> 2 ^ 53 \<le> m)
         then (if 0 < x then PlusInfinity else MinusInfinity)
         else Finite (if 0 < x then of_int m * ulp else - (of_int m * ulp)))"
      using False unfolding to_double_def Let_def e_def ulp_def m_def by (simp only: if_False)
    have fin: "\<not> (1023 < e \<or> (e = 1023 \<and> 2 ^ 53 \<le> m))"
      using assms(1) unfolding T by (auto split: if_splits)
    with assms(1) have y: "y = (if 0 < x then of_int m * ulp else - (of_int m * ulp))"
      unfolding T by (auto split: if_splits)
    have "\<bar>of_int m - \<bar>x\<bar> / ulp\<bar> \<le> 1 / 2"
      unfolding m_def by (rule round_half_even_error)
    then have "\<bar>of_int m - \<bar>x\<bar> / ulp\<bar> * ulp \<le> 1 / 2 * ulp"
      using ulp by (simp only: mult_le_cancel_right_pos)
    moreover have "\<bar>of_int m - \<bar>x\<bar> / ulp\<bar> * ulp = \<bar>of_int m * ulp - \<bar>x\<bar>\<bar>"
    proof -
      have "\<bar>of_int m - \<bar>x\<bar> / ulp\<bar> * ulp = \<bar>(of_int m - \<bar>x\<bar> / ulp) * ulp\<bar>"
        using ulp by (simp add: abs_mult)
      also have "(of_int m - \<bar>x\<bar> / ulp) * ulp = of_int m * ulp - \<bar>x\<bar>"
        using ulp by (simp add: field_simps)
      finally show ?thesis .
    qed
    ultimately have near: "\<bar>of_int m * ulp - \<bar>x\<bar>\<bar> \<le> ulp / 2" by simp
    have err: "\<bar>y - x\<bar> \<le> ulp / 2"
      using near unfolding y by (cases "0 < x") (simp_all add: abs_if split: if_splits)
    have m0: "0 \<le> m"
    proof -
      have "0 \<le> \<bar>x\<bar> / ulp" using ulp by simp
      then have "0 \<le> \<lfloor>\<bar>x\<bar> / ulp\<rfloor>" by simp
      moreover have "\<lfloor>\<bar>x\<bar> / ulp\<rfloor> \<le> m"
        unfolding m_def by (auto simp add: round_half_even_def Let_def)
      ultimately show ?thesis by linarith
    qed
    have hi: "\<bar>x\<bar> < pow2 (binary_exponent x + 1)"
      using binary_exponent_bounds(2)[OF False] .
    have m53: "m \<le> 2 ^ 53"
    proof (cases "e = binary_exponent x")
      case True
      have "\<bar>x\<bar> / ulp < pow2 (e + 1) / ulp"
        using hi ulp unfolding True by (simp add: divide_strict_right_mono)
      also have "\<dots> = pow2 53"
        using pow2_diff[of "e + 1" "e - 52"] by (simp add: ulp_def e_def)
      finally have z: "\<bar>x\<bar> / ulp < of_int (2 ^ 53)" by (simp add: pow2_def)
      have "of_int m \<le> \<bar>x\<bar> / ulp + 1 / 2"
        using round_half_even_error[of "\<bar>x\<bar> / ulp"] unfolding m_def by linarith
      with z have "(of_int m :: rat) < of_int (2 ^ 53) + 1 / 2" by linarith
      then have "(of_int m :: rat) < of_int (2 ^ 53 + 1)" by simp
      then have "m < 2 ^ 53 + 1" by (simp only: of_int_less_iff)
      then show ?thesis by simp
    next
      case c: False
      then have e: "e = - 1022" and b: "binary_exponent x < - 1022"
        unfolding e_def by (simp_all add: max_def split: if_splits)
      from b have "binary_exponent x + 1 \<le> - 1022" by simp
      from pow2_mono[OF this] hi have "\<bar>x\<bar> < pow2 (- 1022)" by simp
      then have "\<bar>x\<bar> / ulp < pow2 (- 1022) / ulp"
        using ulp by (simp add: divide_strict_right_mono)
      also have "\<dots> = pow2 52"
        using pow2_diff[of "- 1022" "- 1074"] by (simp add: ulp_def e_def[symmetric] e)
      finally have z: "\<bar>x\<bar> / ulp < of_int (2 ^ 52)" by (simp add: pow2_def)
      have "of_int m \<le> \<bar>x\<bar> / ulp + 1 / 2"
        using round_half_even_error[of "\<bar>x\<bar> / ulp"] unfolding m_def by linarith
      with z have "(of_int m :: rat) < of_int (2 ^ 52 + 1)" by simp
      then have "m < 2 ^ 52 + 1" by (simp only: of_int_less_iff)
      then show ?thesis by simp
    qed
    have "\<exists>k. \<bar>k\<bar> \<le> 2 ^ 53 \<and> y = of_int k * ulp"
    proof (cases "0 < x")
      case True
      with y m0 m53 show ?thesis by (intro exI[of _ m]) simp
    next
      case False
      with y m0 m53 show ?thesis by (intro exI[of _ "- m"]) simp
    qed
    with err show ?thesis by simp
  qed
  then show "\<bar>y - x\<bar> \<le> ulp / 2" and "\<exists>m. \<bar>m\<bar> \<le> 2 ^ 53 \<and> y = of_int m * ulp"
    by simp_all
qed

section \<open>Properties of the fee arithmetic\<close>

lemma Math_round_of_int: "Math_round (of_int n) = n"
  unfolding Math_round_def by linarith

lemma ToNumber_toNegative_le: "ToNumber (toNegative v) \<le> 0"
  by (simp add: toNegative_def ToNumber_def split: option.splits)

lemma ensure_keeps_fees:
  "hostFeeInHostCurrency (ensureHostCurrencyFxRate t) = hostFeeInHostCurrency t"
  "platformFeeInHostCurrency (ensureHostCurrencyFxRate t) = platformFeeInHostCurrency t"
  "paymentProcessorFeeInHostCurrency (ensureHostCurrencyFxRate t) = paymentProcessorFeeInHostCurrency t"
  by (simp_all add: ensureHostCurrencyFxRate_def)

lemma hasFees_ensure: "hasFees (ensureHostCurrencyFxRate t) = hasFees t"
  by (simp add: hasFees_def ensure_keeps_fees)

lemma example_pair_linked: "order_linked example_credit example_debit"
  by (simp add: order_linked_def example_credit_def example_debit_def)

lemma example_debit_hasFees: "hasFees example_debit"
  by (simp add: example_debit_def hasFees_def fee_set_def truthy_def parseInt_def ToNumber_def)

text \<open>Some doubles: 1 and 0 are read exactly, 0.1 and 1.1 are not.\<close>

lemma to_double_0: "to_double 0 = Finite 0"
  by (simp add: to_double_def)

lemma to_double_1: "to_double 1 = Finite 1"
  by code_simp

lemma to_double_tenth: "to_double (1 / 10) = Finite (3602879701896397 / 36028797018963968)"
  by code_simp

lemma to_double_eleven_tenths: "to_double (11 / 10) = Finite (2476979795053773 / 2251799813685248)"
  by code_simp

lemma times_double_examples:
  "times_double (Finite 900) (Finite 1) = Finite 900"
  "times_double (Finite 1000) (Finite 1) = Finite 1000"
  "times_double (Finite (- 1000)) (Finite 1) = Finite (- 1000)"
  "times_double (Finite 10) (Finite (3602879701896397 / 36028797018963968)) = Finite 1"
  "times_double (Finite 100) (Finite (2476979795053773 / 2251799813685248))
     = Finite (7740561859543041 / 70368744177664)"
  by code_simp+

lemma Math_round_numeral:
  "Math_round 0 = 0" "Math_round (numeral k) = numeral k"
  "Math_round (- numeral k) = - numeral k"
  using Math_round_of_int[of 0] Math_round_of_int[of "numeral k"]
    Math_round_of_int[of "- numeral k"]
  by simp_all

lemma truthy_rate_simps:
  "\<not> truthy_rate None" "\<not> truthy_rate (Some 0)" "truthy_rate (Some 1)"
  by (simp_all add: truthy_rate_def to_double_0 to_double_1)

text \<open>A rate is truthy unless it is \<open>null\<close> or too small to be read as anything but 0.\<close>

lemma truthy_rate_iff: "truthy_rate (Some r) \<longleftrightarrow> pow2 (- 1075) < \<bar>r\<bar>"
  by (simp add: truthy_rate_def to_double_zero_iff not_le)

text \<open>
  At the rate 1 the net value is the sum itself, and the check compares the sum with
  the stored net amount.
\<close>

lemma trValue_at_rate_1:
  assumes "hostCurrencyFxRate tr = Some 1"
    and "\<bar>ToNumber (amountInHostCurrency tr) + ToNumber (hostFeeInHostCurrency tr)
          + ToNumber (platformFeeInHostCurrency tr)
          + ToNumber (paymentProcessorFeeInHostCurrency tr)\<bar> \<le> 2 ^ 53"
  shows "trValue tr
           = Finite (of_int (ToNumber (amountInHostCurrency tr)
               + ToNumber (hostFeeInHostCurrency tr)
               + ToNumber (platformFeeInHostCurrency tr)
               + ToNumber (paymentProcessorFeeInHostCurrency tr)))"
    and "verify tr \<longleftrightarrow>
           netAmountInCollectiveCurrency tr
             = Some (ToNumber (amountInHostCurrency tr) + ToNumber (hostFeeInHostCurrency tr)
                 + ToNumber (platformFeeInHostCurrency tr)
                 + ToNumber (paymentProcessorFeeInHostCurrency tr))"
proof -
  let ?sum = "ToNumber (amountInHostCurrency tr) + ToNumber (hostFeeInHostCurrency tr)
      + ToNumber (platformFeeInHostCurrency tr)
      + ToNumber (paymentProcessorFeeInHostCurrency tr)"
  have "trValue tr = times_double (Finite (of_int ?sum)) (Finite 1)"
    unfolding trValue_def Math_round_of_int
    by (simp add: ToNumber_rate_def assms(1) to_double_1)
  also have "\<dots> = to_double (of_int ?sum)"
    by (simp add: times_double_def)
  also have "\<dots> = Finite (of_int ?sum)"
    using assms(2) by (rule to_double_of_int)
  finally show v: "trValue tr = Finite (of_int ?sum)" .
  show "verify tr \<longleftrightarrow> netAmountInCollectiveCurrency tr = Some ?sum"
    unfolding verify_def v by (auto split: option.splits)
qed

text \<open>
  The product is the one of doubles: \<open>10 * 0.1\<close> is exactly 1, so the check of the first
  row succeeds, and \<open>100 * 1.1\<close> is \<open>110.00000000000001\<close>, so the check of the second
  fails although the decimal product is 110.
\<close>

lemma verify_in_double_arithmetic:
  "trValue tenth_rate_row = Finite 1 \<and> verify tenth_rate_row
   \<and> trValue eleven_tenths_rate_row = Finite (7740561859543041 / 70368744177664)
   \<and> \<not> verify eleven_tenths_rate_row"
  by (simp add: trValue_def verify_def tenth_rate_row_def eleven_tenths_rate_row_def
      ToNumber_def ToNumber_rate_def Math_round_numeral to_double_tenth
      to_double_eleven_tenths times_double_examples)

text \<open>
  C2, as the claim words it, fails: the code sums \<open>amountInHostCurrency\<close>, not \<open>amount\<close>.
  On a row with amount 1000 and amount in host currency 900 (no fees, rate 1, stored net
  amount 900) the code's net value is 900 and its check succeeds, while the formula over
  \<open>amount\<close> gives 1000 and a failed check.
\<close>

theorem trValue_not_over_amount:
  "trValue cross_currency_row = Finite 900 \<and> netValue_spec cross_currency_row = Finite 1000
   \<and> verify cross_currency_row \<and> \<not> isConsistent_spec cross_currency_row"
  by (simp add: trValue_def netValue_spec_def verify_def isConsistent_spec_def
      cross_currency_row_def ToNumber_def ToNumber_rate_def Math_round_numeral to_double_1
      times_double_examples)

text \<open>
  C2, amended: the net value computed by \<open>trValue\<close> is the sum of \<open>amountInHostCurrency\<close>
  and the three fee columns (a \<open>null\<close> counting as 0), rounded first and then multiplied, as
  a double, by the exchange rate (\<open>null\<close> counting as 0); \<open>verify\<close> returns true exactly
  when that double equals the stored \<open>netAmountInCollectiveCurrency\<close> (never for \<open>null\<close>);
  and on a row whose \<open>amount\<close> is its \<open>amountInHostCurrency\<close> the value is the one the
  specification's formula gives.
\<close>

theorem trValue_rounds_then_converts:
  "trValue tr =
     times_double
       (Finite (of_int \<lfloor>(of_int (ToNumber (amountInHostCurrency tr)
          + ToNumber (hostFeeInHostCurrency tr)
          + ToNumber (platformFeeInHostCurrency tr)
          + ToNumber (paymentProcessorFeeInHostCurrency tr)) :: rat) + 1 / 2\<rfloor>))
       (case hostCurrencyFxRate tr of None \<Rightarrow> Finite 0 | Some r \<Rightarrow> to_double r)
   \<and> verify tr
       = (Some (trValue tr)
            = map_option (\<lambda>n. Finite (of_int n)) (netAmountInCollectiveCurrency tr))
   \<and> trValue (tr\<lparr>amount := amountInHostCurrency tr\<rparr>)
       = netValue_spec (tr\<lparr>amount := amountInHostCurrency tr\<rparr>)"
  by (auto simp add: trValue_def verify_def netValue_spec_def Math_round_def ToNumber_rate_def
      split: option.splits)

text \<open>
  C8, as the claim words it, fails: a rate that exists and is 0 is overwritten. The
  code's test is \<open>!tr.hostCurrencyFxRate\<close>, which holds of \<open>null\<close> and of the number 0
  alike, so a same-currency row stored with the rate 0 leaves with the rate 1.
\<close>

theorem ensureHostCurrencyFxRate_overwrites_zero_rate:
  "amount rate_zero_row = amountInHostCurrency rate_zero_row
   \<and> hostCurrencyFxRate rate_zero_row = Some 0
   \<and> hostCurrencyFxRate (ensureHostCurrencyFxRate rate_zero_row) = Some 1"
  by (simp add: ensureHostCurrencyFxRate_def rate_zero_row_def example_credit_def
      truthy_rate_simps)

text \<open>
  C8, amended: \<open>ensureHostCurrencyFxRate\<close> sets the rate to exactly 1 when \<open>amount\<close> equals
  \<open>amountInHostCurrency\<close> and the rate is \<open>null\<close> or 0; a rate that is a number other than
  0 is never overwritten, no rate is set or changed when the two amounts differ, and no
  other column is ever touched.
\<close>

theorem ensureHostCurrencyFxRate_fills_only_missing:
  "(amount tr = amountInHostCurrency tr
      \<and> (hostCurrencyFxRate tr = None \<or> hostCurrencyFxRate tr = Some 0)
      \<longrightarrow> hostCurrencyFxRate (ensureHostCurrencyFxRate tr) = Some 1)
   \<and> (\<forall>r. hostCurrencyFxRate tr = Some r \<and> to_double r \<noteq> Finite 0
        \<longrightarrow> ensureHostCurrencyFxRate tr = tr)
   \<and> (amount tr \<noteq> amountInHostCurrency tr \<longrightarrow> ensureHostCurrencyFxRate tr = tr)
   \<and> ensureHostCurrencyFxRate tr
       = tr\<lparr>hostCurrencyFxRate := hostCurrencyFxRate (ensureHostCurrencyFxRate tr)\<rparr>"
  by (auto simp add: ensureHostCurrencyFxRate_def truthy_rate_def to_double_0
      split: option.splits)

theorem ensureHostCurrencyFxRate_fills_only_missing_witness:
  "amount rate_missing_row = amountInHostCurrency rate_missing_row
   \<and> hostCurrencyFxRate rate_missing_row = None
   \<and> hostCurrencyFxRate (ensureHostCurrencyFxRate rate_missing_row) = Some 1
   \<and> hostCurrencyFxRate example_debit = Some 1 \<and> to_double 1 \<noteq> Finite 0
   \<and> ensureHostCurrencyFxRate example_debit = example_debit
   \<and> amount cross_currency_row \<noteq> amountInHostCurrency cross_currency_row
   \<and> ensureHostCurrencyFxRate cross_currency_row = cross_currency_row"
proof -
  have a: "amount rate_missing_row = amountInHostCurrency rate_missing_row"
    and b: "hostCurrencyFxRate rate_missing_row = None"
    by (simp_all add: rate_missing_row_def example_credit_def)
  have c: "hostCurrencyFxRate example_debit = Some 1" and c': "to_double 1 \<noteq> Finite 0"
    by (simp_all add: example_debit_def to_double_1)
  have d: "amount cross_currency_row \<noteq> amountInHostCurrency cross_currency_row"
    by (simp add: cross_currency_row_def)
  from ensureHostCurrencyFxRate_fills_only_missing [of rate_missing_row] a b
  have "hostCurrencyFxRate (ensureHostCurrencyFxRate rate_missing_row) = Some 1"
    by blast
  moreover from ensureHostCurrencyFxRate_fills_only_missing [of example_debit] c c'
  have "ensureHostCurrencyFxRate example_debit = example_debit"
    by blast
  moreover from ensureHostCurrencyFxRate_fills_only_missing [of cross_currency_row] d
  have "ensureHostCurrencyFxRate cross_currency_row = cross_currency_row"
    by blast
  ultimately show ?thesis using a b c c' d by simp
qed

section \<open>Properties of \<open>migrate\<close>\<close>

lemma migrate_order_rows:
  assumes "order_linked tr1 tr2" and "hasFees tr1 \<or> hasFees tr2"
  shows "rows (migrate tr1 tr2) =
           rewriteFees (credit_of tr1) (debit_of tr1)
             (update_row (debit_of tr1) ensureHostCurrencyFxRate
               (update_row (credit_of tr1) ensureHostCurrencyFxRate (tr1, tr2)))"
    and "thrown (migrate tr1 tr2) = None"
  using assms
  by (cases "credit_of tr1"; cases "debit_of tr1";
      auto simp add: migrate_def order_linked_def Let_def hasFees_ensure)+

lemma rewriteFees_fees:
  "hostFeeInHostCurrency (row c (rewriteFees c d p)) = toNegative (hostFeeInHostCurrency (row c p))"
  "hostFeeInHostCurrency (row d (rewriteFees c d p)) = toNegative (hostFeeInHostCurrency (row c p))"
  "platformFeeInHostCurrency (row c (rewriteFees c d p))
     = toNegative (platformFeeInHostCurrency (row c p))"
  "platformFeeInHostCurrency (row d (rewriteFees c d p))
     = toNegative (platformFeeInHostCurrency (row c p))"
  "paymentProcessorFeeInHostCurrency (row c (rewriteFees c d p))
     = toNegative (paymentProcessorFeeInHostCurrency (row c p))"
  "paymentProcessorFeeInHostCurrency (row d (rewriteFees c d p))
     = toNegative (paymentProcessorFeeInHostCurrency (row c p))"
  by (cases c; cases d; cases p; simp add: rewriteFees_def Let_def)+

lemma ensure_rows_fees:
  "hostFeeInHostCurrency
     (row c (update_row d ensureHostCurrencyFxRate (update_row e ensureHostCurrencyFxRate p)))
     = hostFeeInHostCurrency (row c p)"
  "platformFeeInHostCurrency
     (row c (update_row d ensureHostCurrencyFxRate (update_row e ensureHostCurrencyFxRate p)))
     = platformFeeInHostCurrency (row c p)"
  "paymentProcessorFeeInHostCurrency
     (row c (update_row d ensureHostCurrencyFxRate (update_row e ensureHostCurrencyFxRate p)))
     = paymentProcessorFeeInHostCurrency (row c p)"
  by (cases c; cases d; cases e; cases p; simp add: ensure_keeps_fees)+

text \<open>
  C1, as the claim words it, fails on the specification's own example pair: the debit
  row's fee columns are overwritten with the credit row's (negated) values, so they end
  as 0, 0, 0 and the debit's net value is -1000, not -50, -30, -20 and -1100.
\<close>

theorem migrate_example_debit_gets_credit_fees:
  "order_linked example_credit example_debit \<and> hasFees example_debit
   \<and> hostFeeInHostCurrency (snd (rows (migrate example_credit example_debit))) = Some 0
   \<and> platformFeeInHostCurrency (snd (rows (migrate example_credit example_debit))) = Some 0
   \<and> paymentProcessorFeeInHostCurrency (snd (rows (migrate example_credit example_debit))) = Some 0
   \<and> trValue (snd (rows (migrate example_credit example_debit))) = Finite (- 1000)
   \<and> trValue (snd (rows (migrate example_credit example_debit))) \<noteq> Finite (- 1100)"
  by (simp add: migrate_def order_linked_def example_credit_def example_debit_def hasFees_def
      fee_set_def truthy_def parseInt_def ToNumber_def ToNumber_rate_def credit_of_def
      debit_of_def Let_def ensureHostCurrencyFxRate_def truthy_rate_simps rewriteFees_def
      toNegative_def trValue_def Math_round_numeral to_double_1 times_double_examples)

text \<open>
  C1, amended: for every order-linked pair with non-zero fees, \<open>migrate\<close> throws nothing
  and sets each of the three fee columns, on the credit row and on the debit row alike,
  to \<open>toNegative\<close> of the credit row's value of that column, which is non-positive
  (\<open>null\<close> stays \<open>null\<close>). The debit row's own fee values are discarded.
\<close>

theorem migrate_forces_credit_fees_on_both_rows:
  assumes "order_linked tr1 tr2" and "hasFees tr1 \<or> hasFees tr2"
  shows "thrown (migrate tr1 tr2) = None
    \<and> (let c = credit_of tr1; d = debit_of tr1; after = rows (migrate tr1 tr2);
            h = toNegative (hostFeeInHostCurrency (row c (tr1, tr2)));
            f = toNegative (platformFeeInHostCurrency (row c (tr1, tr2)));
            g = toNegative (paymentProcessorFeeInHostCurrency (row c (tr1, tr2)))
        in hostFeeInHostCurrency (row c after) = h \<and> hostFeeInHostCurrency (row d after) = h
         \<and> platformFeeInHostCurrency (row c after) = f
         \<and> platformFeeInHostCurrency (row d after) = f
         \<and> paymentProcessorFeeInHostCurrency (row c after) = g
         \<and> paymentProcessorFeeInHostCurrency (row d after) = g
         \<and> ToNumber h \<le> 0 \<and> ToNumber f \<le> 0 \<and> ToNumber g \<le> 0)"
  unfolding Let_def
  by (simp add: migrate_order_rows[OF assms] rewriteFees_fees ensure_rows_fees
      ToNumber_toNegative_le)

theorem migrate_forces_credit_fees_on_both_rows_witness:
  "order_linked example_credit example_debit \<and> hasFees example_debit
   \<and> hostFeeInHostCurrency (row Row2 (rows (migrate example_credit example_debit))) = Some 0"
proof -
  have b: "hasFees example_credit \<or> hasFees example_debit"
    using example_debit_hasFees by simp
  have c: "credit_of example_credit = Row1" "debit_of example_credit = Row2"
    by (simp_all add: credit_of_def debit_of_def example_credit_def)
  have d: "toNegative (hostFeeInHostCurrency example_credit) = Some 0"
    by (simp add: toNegative_def example_credit_def)
  from migrate_forces_credit_fees_on_both_rows [OF example_pair_linked b]
  have "hostFeeInHostCurrency
          (row (debit_of example_credit) (rows (migrate example_credit example_debit)))
        = toNegative (hostFeeInHostCurrency
            (row (credit_of example_credit) (example_credit, example_debit)))"
    by (simp add: Let_def)
  then have "hostFeeInHostCurrency (row Row2 (rows (migrate example_credit example_debit))) = Some 0"
    by (simp add: c d)
  then show ?thesis
    using example_pair_linked example_debit_hasFees by simp
qed

text \<open>
  C3: whatever pair \<open>migrate\<close> is called with, each row ends equal to the row it was
  given except possibly in the three fee columns and \<open>hostCurrencyFxRate\<close>; in
  particular \<open>amount\<close>, \<open>netAmountInCollectiveCurrency\<close> and \<open>TransactionGroup\<close> are
  unchanged. A pair that is not order-linked (its groups differ, or it shares a non-null
  expense id, or its order ids are absent or differ) is left exactly as it was.
\<close>

theorem migrate_frame:
  "(let after = rows (migrate tr1 tr2) in
     fst after = tr1\<lparr>hostFeeInHostCurrency := hostFeeInHostCurrency (fst after),
                     platformFeeInHostCurrency := platformFeeInHostCurrency (fst after),
                     paymentProcessorFeeInHostCurrency := paymentProcessorFeeInHostCurrency (fst after),
                     hostCurrencyFxRate := hostCurrencyFxRate (fst after)\<rparr>
   \<and> snd after = tr2\<lparr>hostFeeInHostCurrency := hostFeeInHostCurrency (snd after),
                     platformFeeInHostCurrency := platformFeeInHostCurrency (snd after),
                     paymentProcessorFeeInHostCurrency := paymentProcessorFeeInHostCurrency (snd after),
                     hostCurrencyFxRate := hostCurrencyFxRate (snd after)\<rparr>
   \<and> amount (fst after) = amount tr1 \<and> amount (snd after) = amount tr2
   \<and> netAmountInCollectiveCurrency (fst after) = netAmountInCollectiveCurrency tr1
   \<and> netAmountInCollectiveCurrency (snd after) = netAmountInCollectiveCurrency tr2
   \<and> TransactionGroup (fst after) = TransactionGroup tr1
   \<and> TransactionGroup (snd after) = TransactionGroup tr2
   \<and> (\<not> order_linked tr1 tr2 \<longrightarrow> after = (tr1, tr2)))"
  by (cases "credit_of tr1"; cases "debit_of tr1";
      simp add: migrate_def order_linked_def Let_def rewriteFees_def ensureHostCurrencyFxRate_def)

theorem migrate_frame_witness:
  "\<not> order_linked example_credit cross_currency_row
   \<and> rows (migrate example_credit cross_currency_row) = (example_credit, cross_currency_row)"
proof -
  have a: "\<not> order_linked example_credit cross_currency_row"
    by (simp add: order_linked_def example_credit_def cross_currency_row_def)
  from migrate_frame [of example_credit cross_currency_row] a
  show ?thesis by (simp add: Let_def)
qed

section \<open>Properties of the command line\<close>

text \<open>
  C9, as the claim words it, fails: with no \<open>--batch-size\<close> on the command line the
  parser hands over its declared default 10, which is truthy, so the fallback
  \<open>|| 100\<close> is not taken and the batch size is 10.
\<close>

theorem default_batch_size_is_not_100:
  "batch_size_arg no_flags = None \<and> batchSize (parseCommandLineArguments no_flags) = JNum 10
   \<and> batchSize (parseCommandLineArguments no_flags) \<noteq> JNum 100"
  by (simp add: no_flags_def parseCommandLineArguments_def parseArgs_def js_or_def js_truthy_def)

text \<open>
  C9, amended: when \<open>--batch-size\<close> is not passed the batch size is 10, and each page
  query of the scan asks for at most 10 rows from the cursor on.
\<close>

theorem default_batch_size_is_10:
  "batch_size_arg cl = None \<Longrightarrow>
     batchSize (parseCommandLineArguments cl) = JNum 10
     \<and> fst (retrieveValidTransactions (parseCommandLineArguments cl) st)
         = Inr (take 10 (drop (offset st) (valid_rows (table st))))"
  by (simp add: parseCommandLineArguments_def parseArgs_def js_or_def js_truthy_def
      retrieveValidTransactions_def findAll_def page_limit_def Let_def)

theorem default_batch_size_is_10_witness:
  "batch_size_arg no_flags = None \<and> batchSize (parseCommandLineArguments no_flags) = JNum 10"
proof -
  have a: "batch_size_arg no_flags = None" by (simp add: no_flags_def)
  from default_batch_size_is_10 [OF a] a show ?thesis by blast
qed

section \<open>Properties of the scan\<close>

lemma for_each_pair_frame:
  "for_each_pair ts st = (e, mem, st') \<Longrightarrow>
     table st' = table st \<and> queries st' = queries st \<and> offset st' = offset st"
proof (induction ts st arbitrary: e mem st' rule: for_each_pair.induct)
  case (1 st)
  then show ?case by simp
next
  case (2 t st)
  then show ?case by simp
next
  case (3 t1 t2 rest st)
  show ?case
  proof (cases "TransactionGroup t1 \<noteq> TransactionGroup t2")
    case True
    with 3(2) show ?thesis by simp
  next
    case False
    obtain e1 m1 s1 where r: "for_each_pair rest (st\<lparr>console := console st @ printed (migrate t1 t2)\<rparr>) = (e1, m1, s1)"
      by (cases "for_each_pair rest (st\<lparr>console := console st @ printed (migrate t1 t2)\<rparr>)") auto
    from 3(1)[OF False refl refl r] have "table s1 = table st \<and> queries s1 = queries st \<and> offset s1 = offset st"
      by simp
    moreover from 3(2) False r have "st' = s1" by (simp add: Let_def)
    ultimately show ?thesis by simp
  qed
qed

lemma scan_batch_frame:
  "table (snd (scan_batch opts st)) = table st
   \<and> filter is_write (queries (snd (scan_batch opts st))) = filter is_write (queries st)"
proof -
  obtain r st1 where a: "retrieveValidTransactions opts st = (r, st1)"
    by (cases "retrieveValidTransactions opts st") auto
  then have b: "table st1 = table st" "queries st1 = queries st @ [FindAllCall (batchSize opts) (offset st)]"
    by (auto simp add: retrieveValidTransactions_def Let_def split: sum.splits)
  show ?thesis
  proof (cases r)
    case (Inl e)
    with a b show ?thesis
      by (simp add: scan_batch_def is_write_def)
  next
    case (Inr ts)
    obtain e mem st2 where c: "for_each_pair ts st1 = (e, mem, st2)"
      by (cases "for_each_pair ts st1") auto
    from for_each_pair_frame[OF c] a b Inr c
    show ?thesis
      by (simp add: scan_batch_def is_write_def)
  qed
qed

lemma run_loop_frame:
  assumes "run_loop opts count st = Some y"
  shows "table (snd y) = table st \<and> filter is_write (queries (snd y)) = filter is_write (queries st)"
proof (rule run_loop.raw_induct
    [where P = "\<lambda>opts count st y. table (snd y) = table st
        \<and> filter is_write (queries (snd y)) = filter is_write (queries st)", OF _ assms])
  fix rl opts count st y
  assume IH: "\<And>opts count st y. rl opts count st = Some y \<Longrightarrow>
      table (snd y) = table st \<and> filter is_write (queries (snd y)) = filter is_write (queries st)"
    and body: "(if js_less (offset st) count
      then case scan_batch opts st of (None, st1) \<Rightarrow> rl opts count st1
           | (Some e, st1) \<Rightarrow> Some (Some e, st1)
      else Some (None, st)) = Some y"
  show "table (snd y) = table st \<and> filter is_write (queries (snd y)) = filter is_write (queries st)"
  proof (cases "js_less (offset st) count")
    case False
    with body show ?thesis by auto
  next
    case True
    obtain e1 st1 where s: "scan_batch opts st = (e1, st1)"
      by (cases "scan_batch opts st") auto
    have f: "table st1 = table st" "filter is_write (queries st1) = filter is_write (queries st)"
      using scan_batch_frame[of opts st] s by simp_all
    show ?thesis
    proof (cases e1)
      case None
      with body True s have "rl opts count st1 = Some y" by simp
      from IH[OF this] f show ?thesis by simp
    next
      case (Some x)
      with body True s f show ?thesis by auto
    qed
  qed
qed

lemma run_loop_spins:
  assumes "length (valid_rows (table st0)) \<le> offset st0"
    and "js_less (offset st0) count0"
    and "page_limit (batchSize opts0) = Inr b"
  shows "run_loop opts0 count0 st0 = None"
proof (rule ccontr)
  assume "run_loop opts0 count0 st0 \<noteq> None"
  then obtain y0 where y: "run_loop opts0 count0 st0 = Some y0" by auto
  have "\<not> (opts0 = opts0 \<and> count0 = count0 \<and> table st0 = table st0 \<and> offset st0 = offset st0)"
  proof (rule run_loop.raw_induct
    [where P = "\<lambda>opts count st y.
         \<not> (opts = opts0 \<and> count = count0 \<and> table st = table st0 \<and> offset st = offset st0)", OF _ y])
    fix rl opts count st y
    assume IH: "\<And>opts count st y. rl opts count st = Some y \<Longrightarrow>
        \<not> (opts = opts0 \<and> count = count0 \<and> table st = table st0 \<and> offset st = offset st0)"
      and body: "(if js_less (offset st) count
        then case scan_batch opts st of (None, st1) \<Rightarrow> rl opts count st1
             | (Some e, st1) \<Rightarrow> Some (Some e, st1)
        else Some (None, st)) = Some y"
    show "\<not> (opts = opts0 \<and> count = count0 \<and> table st = table st0 \<and> offset st = offset st0)"
    proof
      assume h: "opts = opts0 \<and> count = count0 \<and> table st = table st0 \<and> offset st = offset st0"
      have page: "findAll (table st) (batchSize opts) (offset st) = Inr []"
        using assms(1,3) h by (cases b) (simp_all add: findAll_def)
      let ?st1 = "st\<lparr>queries := queries st @ [FindAllCall (batchSize opts) (offset st)]\<rparr>"
      have sb: "scan_batch opts st = (None, ?st1)"
        by (simp add: scan_batch_def retrieveValidTransactions_def Let_def page)
      from body h assms(2) sb have "rl opts count ?st1 = Some y"
        by simp
      from IH[OF this] h show False by simp
    qed
  qed
  then show False by simp
qed

lemma scan_batch_batchSize:
  "batchSize o1 = batchSize o2 \<Longrightarrow> scan_batch o1 st = scan_batch o2 st"
  by (simp add: scan_batch_def retrieveValidTransactions_def)

lemma run_loop_batchSize_le:
  assumes "run_loop o1 count0 st0 = Some y0" and eq: "batchSize o1 = batchSize o2"
  shows "run_loop o2 count0 st0 = Some y0"
proof -
  have "o1 = o1 \<longrightarrow> run_loop o2 count0 st0 = Some y0"
  proof (rule run_loop.raw_induct
    [where P = "\<lambda>opts count st y. opts = o1 \<longrightarrow> run_loop o2 count st = Some y", OF _ assms(1)])
    fix rl opts count st y
    assume IH: "\<And>opts count st y. rl opts count st = Some y \<Longrightarrow>
        opts = o1 \<longrightarrow> run_loop o2 count st = Some y"
      and body: "(if js_less (offset st) count
        then case scan_batch opts st of (None, st1) \<Rightarrow> rl opts count st1
             | (Some e, st1) \<Rightarrow> Some (Some e, st1)
        else Some (None, st)) = Some y"
    show "opts = o1 \<longrightarrow> run_loop o2 count st = Some y"
    proof
      assume o: "opts = o1"
      show "run_loop o2 count st = Some y"
      proof (cases "js_less (offset st) count")
        case False
        with body show ?thesis by (subst run_loop.simps) simp
      next
        case True
        obtain e1 st1 where s: "scan_batch o1 st = (e1, st1)"
          by (cases "scan_batch o1 st") auto
        then have s2: "scan_batch o2 st = (e1, st1)"
          using scan_batch_batchSize[OF eq, of st] by simp
        show ?thesis
        proof (cases e1)
          case None
          with body True s o have "rl opts count st1 = Some y" by simp
          from IH[OF this] o have "run_loop o2 count st1 = Some y" by simp
          with True s2 None show ?thesis by (subst run_loop.simps) simp
        next
          case (Some x)
          with body True s s2 o show ?thesis by (subst run_loop.simps) auto
        qed
      qed
    qed
  qed
  then show ?thesis by simp
qed

lemma run_loop_batchSize:
  assumes "batchSize o1 = batchSize o2"
  shows "run_loop o1 count st = run_loop o2 count st"
proof (cases "run_loop o1 count st")
  case None
  show ?thesis
  proof (cases "run_loop o2 count st")
    case (Some y)
    from run_loop_batchSize_le[OF this assms[symmetric]] None show ?thesis by simp
  qed (simp add: None)
next
  case (Some y)
  from run_loop_batchSize_le[OF this assms] Some show ?thesis by simp
qed

lemma for_each_pair_error: "fst (for_each_pair ts st) = first_pairing_error ts"
  by (induction ts st rule: for_each_pair.induct) (auto simp add: Let_def split: prod.splits)

lemma scan_batch_page:
  assumes "findAll (table st) (batchSize opts) (offset st) = Inr ts"
  shows "fst (scan_batch opts st) = first_pairing_error ts"
    and "offset (snd (scan_batch opts st)) = offset st + length ts"
proof -
  let ?st1 = "st\<lparr>queries := queries st @ [FindAllCall (batchSize opts) (offset st)],
                  offset := offset st + length ts\<rparr>"
  obtain e mem st2 where c: "for_each_pair ts ?st1 = (e, mem, st2)"
    by (cases "for_each_pair ts ?st1") auto
  have sb: "scan_batch opts st = (e, st2)"
    using assms c by (simp add: scan_batch_def retrieveValidTransactions_def Let_def)
  from for_each_pair_error[of ts ?st1] c have "e = first_pairing_error ts" by simp
  with sb show "fst (scan_batch opts st) = first_pairing_error ts" by simp
  from for_each_pair_frame[OF c] sb
  show "offset (snd (scan_batch opts st)) = offset st + length ts" by simp
qed

lemma run_loop_throws:
  assumes "js_less (offset st) count" and "fst (scan_batch opts st) = Some e"
  shows "run_loop opts count st = Some (Some e, snd (scan_batch opts st))"
  using assms by (subst run_loop.simps) (cases "scan_batch opts st", simp)

lemma run_loop_continues:
  assumes "js_less (offset st) count" and "fst (scan_batch opts st) = None"
  shows "run_loop opts count st = run_loop opts count (snd (scan_batch opts st))"
  using assms by (subst run_loop.simps) (cases "scan_batch opts st", simp)

lemma run_loop_done:
  assumes "\<not> js_less (offset st) count"
  shows "run_loop opts count st = Some (None, st)"
  using assms by (subst run_loop.simps) simp

lemma vprint_fields [simp]:
  "table (vprint opts m st) = table st"
  "offset (vprint opts m st) = offset st"
  "queries (vprint opts m st) = queries st"
  by (simp_all add: vprint_def)

lemma vprint_dryRun [simp]: "vprint (opts\<lparr>dryRun := b\<rparr>) m st = vprint opts m st"
  by (simp add: vprint_def)

lemma new_Migration_fields [simp]:
  "table (new_Migration tbl) = tbl"
  "offset (new_Migration tbl) = 0"
  "queries (new_Migration tbl) = []"
  by (simp_all add: new_Migration_def)

lemma countValidTransactions_fields [simp]:
  "fst (countValidTransactions st) = length (valid_rows (table st))"
  "table (snd (countValidTransactions st)) = table st"
  "offset (snd (countValidTransactions st)) = offset st"
  "queries (snd (countValidTransactions st)) = queries st @ [CountCall]"
  by (simp_all add: countValidTransactions_def)

lemma run_counts:
  "\<not> js_truthy (limit opts) \<Longrightarrow>
     run opts st = run_loop opts (JNum (length (valid_rows (table st)))) (snd (countValidTransactions st))"
  by (simp add: run_def countValidTransactions_def)

lemma run_limited:
  "js_truthy (limit opts) \<Longrightarrow> run opts st = run_loop opts (limit opts) st"
  by (simp add: run_def)

lemma default_options:
  "parseCommandLineArguments no_flags = \<lparr>dryRun = True, verbose = False, limit = JNull, batchSize = JNum 10\<rparr>"
  by (simp add: no_flags_def parseCommandLineArguments_def parseArgs_def js_or_def js_truthy_def)

lemma valid_example_rows [simp]:
  "valid_rows [example_credit] = [example_credit]"
  "valid_rows [example_credit, example_debit] = [example_credit, example_debit]"
  by (simp_all add: valid_rows_def example_credit_def example_debit_def)

text \<open>
  A mismatched pair whose two rows are both on the page does raise the pairing error of
  the first row, whatever follows it, and the pairs before it have been migrated.
\<close>

lemma mismatched_pair_raises_CannotFindPair:
  assumes "first_pairing_error before = None"
    and "TransactionGroup t1 \<noteq> TransactionGroup t2"
  shows "first_pairing_error (before @ t1 # t2 # rest) = Some (CannotFindPair (tx_id t1))"
  using assms
  by (induction before rule: first_pairing_error.induct) (simp_all split: if_splits)

lemma unpaired_last_row_raises_TypeError:
  assumes "first_pairing_error before = None"
  shows "first_pairing_error (before @ [t]) = Some TypeError"
  using assms
  by (induction before rule: first_pairing_error.induct) (simp_all split: if_splits)

text \<open>
  C4 fails on a table that holds a single unpaired row: the sanity check reads
  \<open>transactions[1].TransactionGroup\<close> of a page of length one, so the run aborts with a
  \<open>TypeError\<close> and not with the pairing error \<open>Cannot find pair for the transaction id\<close>.
\<close>

theorem run_single_row_throws_TypeError:
  "map_option fst (entryPoint (parseCommandLineArguments no_flags) [example_credit]) = Some (Some TypeError)"
proof -
  let ?opts = "parseCommandLineArguments no_flags"
  let ?st0 = "vprint ?opts ''Starting to migrate fees'' (new_Migration [example_credit])"
  let ?st1 = "snd (countValidTransactions ?st0)"
  have t: "table ?st1 = [example_credit]" "offset ?st1 = 0"
    by simp_all
  have page: "findAll (table ?st1) (batchSize ?opts) (offset ?st1) = Inr [example_credit]"
    unfolding t by (simp add: findAll_def page_limit_def default_options)
  have e: "fst (scan_batch ?opts ?st1) = Some TypeError"
    using scan_batch_page(1)[OF page] by simp
  have l: "js_less (offset ?st1) (JNum 1)"
    unfolding t by (simp add: js_less_def js_number_def)
  have nl: "\<not> js_truthy (limit ?opts)"
    by (simp add: default_options js_truthy_def)
  have "run ?opts ?st0 = Some (Some TypeError, snd (scan_batch ?opts ?st1))"
    using run_loop_throws[OF l e] by (simp add: run_counts[OF nl])
  then show ?thesis
    by (simp add: entryPoint_def)
qed

lemma limit_four_options:
  "parseCommandLineArguments limit_four = \<lparr>dryRun = True, verbose = False, limit = JStr ''4'', batchSize = JNum 10\<rparr>"
  by (simp add: limit_four_def no_flags_def parseCommandLineArguments_def parseArgs_def js_or_def js_truthy_def)

lemma four: "js_number (JStr ''4'') = Finite 4"
  by code_simp

text \<open>Other spellings of a limit are read as JavaScript reads them.\<close>

lemma js_number_examples:
  "js_number (JStr ''2.0'') = Finite 2" "js_number (JStr ''1e3'') = Finite 1000"
  "js_number (JStr ''+4'') = Finite 4" "js_number (JStr '' 4'') = Finite 4"
  "js_number (JStr ''0x10'') = Finite 16" "js_number (JStr ''four'') = NaN"
  "js_number (JStr []) = Finite 0" "js_number JNull = Finite 0"
  by code_simp+

text \<open>
  C7 fails when the limit exceeds the number of rows: started with \<open>--limit 4\<close> on a
  table of two rows, the run reads the pair, then fetches empty pages for ever, the
  cursor staying at 2 below the limit. The run never returns.
\<close>

theorem run_limit_beyond_rows_never_returns:
  "entryPoint (parseCommandLineArguments limit_four) [example_credit, example_debit] = None"
proof -
  let ?opts = "parseCommandLineArguments limit_four"
  let ?st0 = "vprint ?opts ''Starting to migrate fees'' (new_Migration [example_credit, example_debit])"
  let ?st1 = "snd (scan_batch ?opts ?st0)"
  have t: "table ?st0 = [example_credit, example_debit]" "offset ?st0 = 0"
    by simp_all
  have page: "findAll (table ?st0) (batchSize ?opts) (offset ?st0) = Inr [example_credit, example_debit]"
    unfolding t by (simp add: findAll_def page_limit_def limit_four_options)
  have e: "fst (scan_batch ?opts ?st0) = None"
    using scan_batch_page(1)[OF page] by (simp add: example_credit_def example_debit_def)
  have o: "offset ?st1 = 2"
    using scan_batch_page(2)[OF page] t by simp
  have tb: "table ?st1 = [example_credit, example_debit]"
    using scan_batch_frame[of ?opts ?st0] t by simp
  have l0: "js_less (offset ?st0) (JStr ''4'')"
    unfolding t by (simp add: js_less_def four)
  have l1: "js_less (offset ?st1) (JStr ''4'')"
    unfolding o by (simp add: js_less_def four)
  have pl: "page_limit (batchSize ?opts) = Inr (Some 10)"
    by (simp add: page_limit_def limit_four_options)
  have "length (valid_rows (table ?st1)) \<le> offset ?st1"
    unfolding tb o by simp
  from run_loop_spins[OF this l1 pl] have "run_loop ?opts (JStr ''4'') ?st1 = None" .
  with run_loop_continues[OF l0 e] have "run_loop ?opts (JStr ''4'') ?st0 = None" by simp
  moreover have "limit ?opts = JStr ''4''"
    by (simp add: limit_four_options)
  ultimately have "run ?opts ?st0 = None"
    by (simp add: run_limited js_truthy_def)
  then show ?thesis by (simp add: entryPoint_def)
qed

lemma run_frame:
  assumes "run opts st = Some y"
  shows "table (snd y) = table st \<and> filter is_write (queries (snd y)) = filter is_write (queries st)"
proof (cases "js_truthy (limit opts)")
  case True
  with assms run_loop_frame[of opts "limit opts" st y] show ?thesis by (simp add: run_def)
next
  case False
  let ?st1 = "st\<lparr>queries := queries st @ [CountCall]\<rparr>"
  from False assms have "run_loop opts (JNum (length (valid_rows (table st)))) ?st1 = Some y"
    by (simp add: run_def countValidTransactions_def)
  from run_loop_frame[OF this] show ?thesis by (simp add: is_write_def)
qed

lemma run_batchSize:
  assumes "batchSize o1 = batchSize o2" and "limit o1 = limit o2"
  shows "run o1 st = run o2 st"
  using assms run_loop_batchSize[OF assms(1)] by (simp add: run_def split: prod.splits)

lemma entryPoint_frame:
  assumes "entryPoint opts tbl = Some y"
  shows "table (snd y) = tbl \<and> filter is_write (queries (snd y)) = []"
proof -
  let ?st0 = "vprint opts ''Starting to migrate fees'' (new_Migration tbl)"
  have s0: "table ?st0 = tbl" "queries ?st0 = []"
    by simp_all
  from assms obtain e st where r: "run opts ?st0 = Some (e, st)"
    by (auto simp add: entryPoint_def split: option.splits)
  from run_frame[OF r] s0 have f: "table st = tbl" "filter is_write (queries st) = []" by simp_all
  from assms r f show ?thesis
    by (cases e) (auto simp add: entryPoint_def vprint_def is_write_def)
qed

lemma entryPoint_dryRun: "entryPoint (opts\<lparr>dryRun := b\<rparr>) tbl = entryPoint opts tbl"
proof -
  have "run (opts\<lparr>dryRun := b\<rparr>) st = run opts st" for st
    by (rule run_batchSize) simp_all
  then show ?thesis by (auto simp add: entryPoint_def split: option.splits)
qed

text \<open>
  C10: no call that writes a row ever reaches the store. A run that returns, with or
  without an error, leaves the persisted table as it was and has issued no save and no
  update; so does every single turn of the loop, hence also a run that never returns.
  The option \<open>dryRun\<close> is not read: changing it, or passing \<open>--notdryrun\<close>, changes
  nothing in what the run does.
\<close>

theorem migration_never_writes:
  "(\<forall>e st'. entryPoint opts tbl = Some (e, st')
        \<longrightarrow> table st' = tbl \<and> filter is_write (queries st') = [])
   \<and> (\<forall>e st'. run opts st = Some (e, st')
        \<longrightarrow> table st' = table st \<and> filter is_write (queries st') = filter is_write (queries st))
   \<and> table (snd (scan_batch opts st)) = table st
   \<and> filter is_write (queries (snd (scan_batch opts st))) = filter is_write (queries st)
   \<and> run (opts\<lparr>dryRun := b\<rparr>) st = run opts st
   \<and> entryPoint (opts\<lparr>dryRun := b\<rparr>) tbl = entryPoint opts tbl
   \<and> entryPoint (parseCommandLineArguments (cl\<lparr>notdryrun_flag := b\<rparr>)) tbl
       = entryPoint (parseCommandLineArguments cl) tbl"
proof -
  have a: "\<forall>e st'. entryPoint opts tbl = Some (e, st')
        \<longrightarrow> table st' = tbl \<and> filter is_write (queries st') = []"
    using entryPoint_frame[of opts tbl] by auto
  have b: "\<forall>e st'. run opts st = Some (e, st')
        \<longrightarrow> table st' = table st \<and> filter is_write (queries st') = filter is_write (queries st)"
    using run_frame[of opts st] by auto
  have c: "run (opts\<lparr>dryRun := b\<rparr>) st = run opts st"
    by (rule run_batchSize) simp_all
  have d: "parseCommandLineArguments (cl\<lparr>notdryrun_flag := b\<rparr>)
        = (parseCommandLineArguments cl)\<lparr>dryRun := \<not> b\<rparr>"
    by (simp add: parseCommandLineArguments_def parseArgs_def Let_def)
  have e: "entryPoint (parseCommandLineArguments (cl\<lparr>notdryrun_flag := b\<rparr>)) tbl
       = entryPoint (parseCommandLineArguments cl) tbl"
    unfolding d by (rule entryPoint_dryRun)
  from a b c e scan_batch_frame[of opts st] entryPoint_dryRun[where opts = opts and b = b and tbl = tbl]
  show ?thesis by blast
qed

theorem migration_never_writes_witness:
  "(\<exists>st'. entryPoint (parseCommandLineArguments notdryrun_only) [example_credit, example_debit] = Some (None, st')
       \<and> table st' = [example_credit, example_debit] \<and> filter is_write (queries st') = [])"
proof -
  let ?opts = "parseCommandLineArguments notdryrun_only"
  let ?tbl = "[example_credit, example_debit]"
  have od: "?opts = \<lparr>dryRun = False, verbose = False, limit = JNull, batchSize = JNum 10\<rparr>"
    by (simp add: notdryrun_only_def no_flags_def parseCommandLineArguments_def parseArgs_def js_or_def js_truthy_def)
  let ?st0 = "vprint ?opts ''Starting to migrate fees'' (new_Migration ?tbl)"
  let ?st1 = "snd (countValidTransactions ?st0)"
  let ?st2 = "snd (scan_batch ?opts ?st1)"
  have t: "table ?st1 = ?tbl" "offset ?st1 = 0"
    by simp_all
  have page: "findAll (table ?st1) (batchSize ?opts) (offset ?st1) = Inr ?tbl"
    unfolding t by (simp add: findAll_def page_limit_def od)
  have e: "fst (scan_batch ?opts ?st1) = None"
    using scan_batch_page(1)[OF page] by (simp add: example_credit_def example_debit_def)
  have o: "offset ?st2 = 2"
    using scan_batch_page(2)[OF page] t by simp
  have l0: "js_less (offset ?st1) (JNum 2)"
    unfolding t by (simp add: js_less_def js_number_def)
  have l1: "\<not> js_less (offset ?st2) (JNum 2)"
    unfolding o by (simp add: js_less_def js_number_def)
  have "run_loop ?opts (JNum 2) ?st1 = Some (None, ?st2)"
    using run_loop_continues[OF l0 e] run_loop_done[OF l1] by simp
  moreover have nl: "\<not> js_truthy (limit ?opts)"
    by (simp add: od js_truthy_def)
  ultimately have r: "run ?opts ?st0 = Some (None, ?st2)"
    by (simp add: run_counts[OF nl] numeral_2_eq_2)
  then obtain st' where ep: "entryPoint ?opts ?tbl = Some (None, st')"
    by (simp add: entryPoint_def)
  from migration_never_writes[of ?opts ?tbl] ep
  have "table st' = ?tbl \<and> filter is_write (queries st') = []" by blast
  with ep show ?thesis by blast
qed

section \<open>Properties of the trial end\<close>

lemma div_bounds: "0 < k \<Longrightarrow> k * (x div k) \<le> (x::int) \<and> x < k * (x div k) + k"
  using mult_div_mod_eq[of k x] pos_mod_bound[of k x] pos_mod_sign[of k x] by linarith

lemma guess_close:
  assumes lo: "DayFromYear y \<le> d" and hi: "d < DayFromYear (y + 1)"
  shows "y - 1 \<le> 1970 + (400 * d) div 146097 \<and> 1970 + (400 * d) div 146097 \<le> y + 1"
proof -
  define a b c where "a = (y - 1969) div 4" and "b = (y - 1901) div 100" and "c = (y - 1601) div 400"
  define a' b' c' where "a' = (y + 1 - 1969) div 4" and "b' = (y + 1 - 1901) div 100"
    and "c' = (y + 1 - 1601) div 400"
  define q where "q = (400 * d) div 146097"
  have A: "4 * a \<le> y - 1969 \<and> y - 1969 < 4 * a + 4"
    unfolding a_def by (rule div_bounds) simp
  have B: "100 * b \<le> y - 1901 \<and> y - 1901 < 100 * b + 100"
    unfolding b_def by (rule div_bounds) simp
  have C: "400 * c \<le> y - 1601 \<and> y - 1601 < 400 * c + 400"
    unfolding c_def by (rule div_bounds) simp
  have A': "4 * a' \<le> y + 1 - 1969 \<and> y + 1 - 1969 < 4 * a' + 4"
    unfolding a'_def by (rule div_bounds) simp
  have B': "100 * b' \<le> y + 1 - 1901 \<and> y + 1 - 1901 < 100 * b' + 100"
    unfolding b'_def by (rule div_bounds) simp
  have C': "400 * c' \<le> y + 1 - 1601 \<and> y + 1 - 1601 < 400 * c' + 400"
    unfolding c'_def by (rule div_bounds) simp
  have Q: "146097 * q \<le> 400 * d \<and> 400 * d < 146097 * q + 146097"
    unfolding q_def by (rule div_bounds) simp
  have lo': "365 * y - 719050 + a - b + c \<le> d"
    using lo unfolding DayFromYear_def a_def b_def c_def by simp
  have hi': "d < 365 * y - 718685 + a' - b' + c'"
    using hi unfolding DayFromYear_def a'_def b'_def c'_def by simp
  have "y - 1 \<le> 1970 + q" using A B C Q lo' by (elim conjE) linarith
  moreover have "1970 + q \<le> y + 1" using A' B' C' Q hi' by (elim conjE) linarith
  ultimately show ?thesis unfolding q_def by simp
qed

lemma DayFromYear_gap: "DayFromYear y + 364 \<le> DayFromYear (y + 1)"
proof -
  define a b c where "a = (y - 1969) div 4" and "b = (y - 1901) div 100" and "c = (y - 1601) div 400"
  define a' b' c' where "a' = (y + 1 - 1969) div 4" and "b' = (y + 1 - 1901) div 100"
    and "c' = (y + 1 - 1601) div 400"
  have A: "4 * a \<le> y - 1969 \<and> y - 1969 < 4 * a + 4"
    unfolding a_def by (rule div_bounds) simp
  have B: "100 * b \<le> y - 1901 \<and> y - 1901 < 100 * b + 100"
    unfolding b_def by (rule div_bounds) simp
  have C: "400 * c \<le> y - 1601 \<and> y - 1601 < 400 * c + 400"
    unfolding c_def by (rule div_bounds) simp
  have A': "4 * a' \<le> y + 1 - 1969 \<and> y + 1 - 1969 < 4 * a' + 4"
    unfolding a'_def by (rule div_bounds) simp
  have B': "100 * b' \<le> y + 1 - 1901 \<and> y + 1 - 1901 < 100 * b' + 100"
    unfolding b'_def by (rule div_bounds) simp
  have C': "400 * c' \<le> y + 1 - 1601 \<and> y + 1 - 1601 < 400 * c' + 400"
    unfolding c'_def by (rule div_bounds) simp
  have "a \<le> a'" using A A' by (elim conjE) linarith
  moreover have "b' \<le> b + 1" using B B' by (elim conjE) linarith
  moreover have "c \<le> c'" using C C' by (elim conjE) linarith
  ultimately have "365 * y - 719050 + a - b + c + 364 \<le> 365 * y - 718685 + a' - b' + c'"
    by linarith
  then show ?thesis
    unfolding DayFromYear_def a_def b_def c_def a'_def b'_def c'_def by simp
qed

lemma YearFromDay_eq:
  assumes "DayFromYear y \<le> d" and "d < DayFromYear (y + 1)"
  shows "YearFromDay d = y"
proof -
  define g where "g = 1970 + (400 * d) div 146097"
  have Y: "YearFromDay d =
      (if DayFromYear (g + 1) \<le> d then g + 1 else if d < DayFromYear g then g - 1 else g)"
    by (simp only: YearFromDay_def Let_def g_def)
  from guess_close[OF assms] have "g = y - 1 \<or> g = y \<or> g = y + 1"
    unfolding g_def by linarith
  moreover have up: "DayFromYear (y + 1) < DayFromYear (y + 1 + 1)"
    using DayFromYear_gap[of "y + 1"] by linarith
  moreover have down: "DayFromYear (y - 1) < DayFromYear y"
    using DayFromYear_gap[of "y - 1"] by simp
  ultimately show ?thesis
  proof (elim disjE)
    assume "g = y - 1"
    with assms show ?thesis by (simp only: Y) simp
  next
    assume "g = y"
    with assms show ?thesis by (simp only: Y) simp
  next
    assume e: "g = y + 1"
    have "\<not> DayFromYear (g + 1) \<le> d" using assms up unfolding e by linarith
    moreover have "d < DayFromYear g" using assms unfolding e by simp
    ultimately show ?thesis using e by (simp add: Y)
  qed
qed


lemma MonthFromTime_range: "0 \<le> MonthFromTime t \<and> MonthFromTime t \<le> 11"
  by (simp add: MonthFromTime_def Let_def)

lemma month_start_range: "0 \<le> month_start m leap \<and> month_start m leap \<le> 335"
  by (simp add: month_start_def Let_def)

lemma Day_MakeDate:
  assumes "0 \<le> tod" and "tod < msPerDay"
  shows "Day (MakeDate d tod) = d" and "TimeWithinDay (MakeDate d tod) = tod"
  using assms by (simp_all add: Day_def TimeWithinDay_def MakeDate_def msPerDay_def)

lemma TimeWithinDay_range: "0 \<le> TimeWithinDay t \<and> TimeWithinDay t < msPerDay"
  by (simp add: TimeWithinDay_def msPerDay_def)

lemma first_of_month_fields:
  fixes y mn tod :: int
  assumes m: "0 \<le> mn" "mn \<le> 11" and tod: "0 \<le> tod" "tod < msPerDay"
  defines "t \<equiv> MakeDate (DayFromYear y + month_start mn (leap_year y)) tod"
  shows "YearFromTime t = y \<and> MonthFromTime t = mn \<and> DateFromTime t = 1 \<and> TimeWithinDay t = tod"
proof -
  let ?d = "DayFromYear y + month_start mn (leap_year y)"
  have d: "Day t = ?d" and w: "TimeWithinDay t = tod"
    unfolding t_def using Day_MakeDate[OF tod] by simp_all
  have "DayFromYear y \<le> ?d" "?d < DayFromYear (y + 1)"
    using month_start_range[of mn "leap_year y"] DayFromYear_gap[of y] by linarith+
  then have yr: "YearFromTime t = y"
    unfolding YearFromTime_def d by (rule YearFromDay_eq)
  have n: "DayWithinYear t = month_start mn (leap_year y)"
    by (simp add: DayWithinYear_def yr d)
  have l: "InLeapYear t = leap_year y"
    by (simp add: InLeapYear_def yr)
  from m have "mn \<in> {0, 1, 2, 3, 4, 5, 6, 7, 8, 9, 10, 11}" by simp presburger
  then have mo: "MonthFromTime t = mn"
    unfolding MonthFromTime_def n l Let_def
    by (elim insertE emptyE) (simp_all add: month_start_def)
  have "DateFromTime t = 1"
    by (simp add: DateFromTime_def mo n l)
  with yr mo w show ?thesis by simp
qed

lemma MakeDay_first:
  "MakeDay y m 1 = DayFromYear (y + m div 12) + month_start (m mod 12) (leap_year (y + m div 12))"
  by (simp add: MakeDay_def Let_def)


lemma fields_by_Day:
  assumes "Day a = Day b"
  shows "YearFromTime a = YearFromTime b" and "MonthFromTime a = MonthFromTime b"
    and "DateFromTime a = DateFromTime b"
  using assms
  by (simp_all add: YearFromTime_def MonthFromTime_def DateFromTime_def DayWithinYear_def
      InLeapYear_def)

lemma first_of_month_MakeDay:
  fixes y m tod :: int
  assumes "0 \<le> tod" "tod < msPerDay"
  defines "l \<equiv> MakeDate (MakeDay y m 1) tod"
  shows "YearFromTime l = y + m div 12 \<and> MonthFromTime l = m mod 12 \<and> DateFromTime l = 1
         \<and> TimeWithinDay l = tod"
proof -
  have "0 \<le> m mod 12" "m mod 12 \<le> 11" by simp_all
  from first_of_month_fields[OF this assms(1,2), of "y + m div 12"]
  show ?thesis unfolding l_def MakeDay_first .
qed

lemma MakeDay_next_year: "MakeDay y (m + 12) d = MakeDay (y + 1) m d"
  by (simp add: MakeDay_def Let_def ac_simps)

lemma fixed_offset_on_clock: "transitions z = [] \<Longrightarrow> on_clock z l"
  by (simp add: on_clock_def LocalTime_def UTC_def LocalTZA_def)

text \<open>
  After \<open>setDate(1)\<close> the clock shows the first of the creation month, provided the
  reading of that local time stays on its day.
\<close>

lemma setDate_first:
  fixes z :: zone and tv :: int
  defines "t \<equiv> LocalTime z tv"
  defines "l1 \<equiv> MakeDate (MakeDay (YearFromTime t) (MonthFromTime t) 1) (TimeWithinDay t)"
  defines "s \<equiv> LocalTime z (Date_setDate z tv 1)"
  shows "s = LocalTime z (UTC z l1)"
    and "Day s = Day l1 \<Longrightarrow>
           YearFromTime s = YearFromTime t \<and> MonthFromTime s = MonthFromTime t
           \<and> DateFromTime s = 1"
proof -
  show "s = LocalTime z (UTC z l1)"
    by (simp add: s_def l1_def t_def Date_setDate_def Let_def)
  have r: "0 \<le> TimeWithinDay t" "TimeWithinDay t < msPerDay"
    using TimeWithinDay_range[of t] by simp_all
  have m: "MonthFromTime t div 12 = 0" "MonthFromTime t mod 12 = MonthFromTime t"
    using MonthFromTime_range[of t] by simp_all
  from first_of_month_MakeDay[OF r, of "YearFromTime t" "MonthFromTime t"] m
  have f: "YearFromTime l1 = YearFromTime t" "MonthFromTime l1 = MonthFromTime t"
    "DateFromTime l1 = 1"
    unfolding l1_def by simp_all
  assume "Day s = Day l1"
  from fields_by_Day[OF this] f
  show "YearFromTime s = YearFromTime t \<and> MonthFromTime s = MonthFromTime t
        \<and> DateFromTime s = 1"
    by simp
qed

lemma trial_end_value:
  fixes z :: zone and tv k :: int
  defines "t \<equiv> LocalTime z tv"
  defines "l1 \<equiv> MakeDate (MakeDay (YearFromTime t) (MonthFromTime t) 1) (TimeWithinDay t)"
  assumes "Day (LocalTime z (UTC z l1)) = Day l1"
  shows "Date_setMonth z (Date_setDate z tv 1) (Date_getMonth z (Date_setDate z tv 1) + k)
         = Date_local z (YearFromTime t) (MonthFromTime t + k) 1
             (TimeWithinDay (LocalTime z (UTC z l1)))"
proof -
  let ?s = "LocalTime z (Date_setDate z tv 1)"
  have s: "?s = LocalTime z (UTC z l1)"
    using setDate_first(1)[of z tv] unfolding l1_def t_def .
  with assms(3) have "Day ?s = Day l1" by simp
  then have "YearFromTime ?s = YearFromTime t \<and> MonthFromTime ?s = MonthFromTime t
        \<and> DateFromTime ?s = 1"
    unfolding l1_def t_def by (rule setDate_first(2))
  then show ?thesis
    unfolding Date_setMonth_def Date_getMonth_def Date_local_def Let_def s[symmetric]
    by simp
qed

text \<open>What the clock shows at the instant \<open>Date_local\<close> builds, when it shows that time at all.\<close>

lemma Date_local_fields:
  assumes "0 \<le> tod" and "tod < msPerDay" and "on_clock z (MakeDate (MakeDay y m 1) tod)"
  shows "YearFromTime (LocalTime z (Date_local z y m 1 tod)) = y + m div 12
       \<and> MonthFromTime (LocalTime z (Date_local z y m 1 tod)) = m mod 12
       \<and> DateFromTime (LocalTime z (Date_local z y m 1 tod)) = 1
       \<and> TimeWithinDay (LocalTime z (Date_local z y m 1 tod)) = tod"
  using first_of_month_MakeDay[OF assms(1,2), of y m] assms(3)
  by (simp add: Date_local_def on_clock_def)

lemma example_days:
  "MakeDay 2020 2 15 = 18336" "MakeDay 2020 2 5 = 18326" "MakeDay 2020 2 1 = 18322"
  "MakeDay 2020 3 1 = 18353" "MakeDay 2020 2 8 = 18329" "MakeDay 2020 10 1 = 18567"
  "MakeDay 2020 2 29 = 18350" "MakeDay 2020 9 25 = 18560"
  by (simp_all add: MakeDay_def DayFromYear_def month_start_def leap_year_def Let_def)

lemma example_zone_offsets:
  "LocalTZA utc_zone t b = 0"
  "LocalTZA new_york_2020 t True
     = (if t < 1583650800000 then - 18000000 else if t < 1604210400000 then - 14400000
        else - 18000000)"
  "LocalTZA new_york_2020 t False
     = (if t < 1583632800000 \<or> t < 1583636400000 then - 18000000
        else if t < 1604196000000 \<or> t < 1604192400000 then - 14400000 else - 18000000)"
  "LocalTZA berlin_2020 t True
     = (if t < 1585443600000 then 3600000 else if t < 1603587600000 then 7200000
        else 3600000)"
  "LocalTZA berlin_2020 t False
     = (if t < 1585447200000 \<or> t < 1585450800000 then 3600000
        else if t < 1603594800000 \<or> t < 1603591200000 then 7200000 else 3600000)"
  by (auto simp add: LocalTZA_def utc_zone_def new_york_2020_def berlin_2020_def example_days
      MakeDate_def msPerDay_def msPerHour_def)

lemma example_first_of_april:
  "Date_local utc_zone 2020 3 1 0 div 1000 = 1585699200"
  "Date_local new_york_2020 2020 3 1 0 div 1000 = 1585713600"
  "Date_local berlin_2020 2020 3 1 0 div 1000 = 1585692000"
  by (simp_all add: Date_local_def UTC_def example_zone_offsets example_days MakeDate_def
      msPerDay_def)

lemma trial_end_when_day_kept:
  fixes z :: zone and tv :: int
  defines "t \<equiv> LocalTime z tv"
  defines "l1 \<equiv> MakeDate (MakeDay (YearFromTime t) (MonthFromTime t) 1) (TimeWithinDay t)"
  assumes d: "Day (LocalTime z (UTC z l1)) = Day l1"
  shows "getSubscriptionTrialEndDate z tv ''month''
           = Some (Date_local z (YearFromTime t) (MonthFromTime t + 1) 1
                     (TimeWithinDay (LocalTime z (UTC z l1))) div 1000)"
    and "getSubscriptionTrialEndDate z tv ''year''
           = Some (Date_local z (YearFromTime t + 1) (MonthFromTime t) 1
                     (TimeWithinDay (LocalTime z (UTC z l1))) div 1000)"
  using trial_end_value[OF d[unfolded l1_def t_def], of 1]
    trial_end_value[OF d[unfolded l1_def t_def], of 12]
  by (simp_all add: getSubscriptionTrialEndDate_def Let_def Date_local_def MakeDay_next_year
      l1_def t_def)

lemma trial_end_when_on_clock:
  fixes z :: zone and tv :: int
  defines "t \<equiv> LocalTime z tv"
  defines "l1 \<equiv> MakeDate (MakeDay (YearFromTime t) (MonthFromTime t) 1) (TimeWithinDay t)"
  assumes c: "on_clock z l1"
  shows "getSubscriptionTrialEndDate z tv ''month''
           = Some (Date_local z (YearFromTime t) (MonthFromTime t + 1) 1 (TimeWithinDay t) div 1000)"
    and "getSubscriptionTrialEndDate z tv ''year''
           = Some (Date_local z (YearFromTime t + 1) (MonthFromTime t) 1 (TimeWithinDay t) div 1000)"
proof -
  from c have s: "LocalTime z (UTC z l1) = l1" by (simp add: on_clock_def)
  have r: "0 \<le> TimeWithinDay t" "TimeWithinDay t < msPerDay"
    using TimeWithinDay_range[of t] by simp_all
  have w: "TimeWithinDay l1 = TimeWithinDay t"
    unfolding l1_def using Day_MakeDate(2)[OF r] .
  have d: "Day (LocalTime z (UTC z l1)) = Day l1" using s by simp
  from trial_end_when_day_kept[OF d[unfolded l1_def t_def]]
  show "getSubscriptionTrialEndDate z tv ''month''
           = Some (Date_local z (YearFromTime t) (MonthFromTime t + 1) 1 (TimeWithinDay t) div 1000)"
    and "getSubscriptionTrialEndDate z tv ''year''
           = Some (Date_local z (YearFromTime t + 1) (MonthFromTime t) 1 (TimeWithinDay t) div 1000)"
    using s w unfolding l1_def t_def by simp_all
qed

lemma trial_end_mid_march_2020:
  assumes "on_clock z (MakeDate (MakeDay 2020 2 15) 0)"
    and "on_clock z (MakeDate (MakeDay 2020 2 1) 0)"
  shows "getSubscriptionTrialEndDate z (Date_local z 2020 2 15 0) ''month''
           = Some (Date_local z 2020 3 1 0 div 1000)"
proof -
  have l: "LocalTime z (Date_local z 2020 2 15 0) = MakeDate 18336 0"
    using assms(1) by (simp add: Date_local_def on_clock_def example_days)
  have f: "YearFromTime (MakeDate 18336 0) = 2020" "MonthFromTime (MakeDate 18336 0) = 2"
    "TimeWithinDay (MakeDate 18336 0) = 0"
    by (simp_all add: YearFromTime_def MonthFromTime_def DayWithinYear_def InLeapYear_def
        YearFromDay_def DayFromYear_def Day_def TimeWithinDay_def MakeDate_def msPerDay_def
        month_start_def leap_year_def Let_def)
  have "on_clock z (MakeDate (MakeDay (YearFromTime (LocalTime z (Date_local z 2020 2 15 0)))
          (MonthFromTime (LocalTime z (Date_local z 2020 2 15 0))) 1)
          (TimeWithinDay (LocalTime z (Date_local z 2020 2 15 0))))"
    unfolding l f using assms(2) .
  from trial_end_when_on_clock(1)[OF this] show ?thesis
    unfolding l f by simp
qed

text \<open>
  C6: for every zone and creation instant, every interval other than \<open>month\<close> and \<open>year\<close>
  gives \<open>null\<close>. Let the creation fall, on the local clock, in year \<open>y\<close> and month \<open>m\<close> at the
  time of day \<open>tod\<close>. When the clock shows the first of that month at \<open>tod\<close> (it does unless
  a change of offset skips that very time), the trial end is the time value, in whole
  seconds, of the local first of the next month (interval \<open>month\<close>; month 12 is January of
  the next year) or of the same month a year later (interval \<open>year\<close>), at \<open>tod\<close>. When
  that time is skipped but its reading stays on the same day, the same holds with the
  time of day the clock shows instead. For an order created on 2020-03-15 at local
  midnight and interval \<open>month\<close> the result is the seconds of 2020-04-01T00:00:00 local
  time: 1585699200 in UTC, 1585713600 in New York, 1585692000 in Berlin.
\<close>

theorem trial_end_is_first_of_next_period:
  "(iv \<noteq> ''month'' \<and> iv \<noteq> ''year'' \<longrightarrow> getSubscriptionTrialEndDate z tv iv = None)
   \<and> (let t = LocalTime z tv; y = YearFromTime t; m = MonthFromTime t; tod = TimeWithinDay t;
          shown = LocalTime z (UTC z (MakeDate (MakeDay y m 1) tod))
      in (on_clock z (MakeDate (MakeDay y m 1) tod) \<longrightarrow>
            getSubscriptionTrialEndDate z tv ''month''
              = Some (Date_local z y (m + 1) 1 tod div 1000)
            \<and> getSubscriptionTrialEndDate z tv ''year''
              = Some (Date_local z (y + 1) m 1 tod div 1000))
       \<and> (Day shown = Day (MakeDate (MakeDay y m 1) tod) \<longrightarrow>
            getSubscriptionTrialEndDate z tv ''month''
              = Some (Date_local z y (m + 1) 1 (TimeWithinDay shown) div 1000)
            \<and> getSubscriptionTrialEndDate z tv ''year''
              = Some (Date_local z (y + 1) m 1 (TimeWithinDay shown) div 1000)))
   \<and> (on_clock z (MakeDate (MakeDay 2020 2 15) 0) \<and> on_clock z (MakeDate (MakeDay 2020 2 1) 0)
        \<longrightarrow> getSubscriptionTrialEndDate z (Date_local z 2020 2 15 0) ''month''
              = Some (Date_local z 2020 3 1 0 div 1000))
   \<and> Date_local utc_zone 2020 3 1 0 div 1000 = 1585699200
   \<and> Date_local new_york_2020 2020 3 1 0 div 1000 = 1585713600
   \<and> Date_local berlin_2020 2020 3 1 0 div 1000 = 1585692000"
proof -
  have a: "iv \<noteq> ''month'' \<and> iv \<noteq> ''year'' \<longrightarrow> getSubscriptionTrialEndDate z tv iv = None"
    by (simp add: getSubscriptionTrialEndDate_def Let_def)
  from a trial_end_when_on_clock[of z tv] trial_end_when_day_kept[of z tv]
    trial_end_mid_march_2020[of z] example_first_of_april
  show ?thesis
    unfolding Let_def by blast
qed

theorem trial_end_is_first_of_next_period_witness:
  "''week'' \<noteq> ''month'' \<and> ''week'' \<noteq> ''year''
   \<and> getSubscriptionTrialEndDate new_york_2020 1583384400000 ''week'' = None
   \<and> on_clock new_york_2020 (MakeDate (MakeDay 2020 2 1) 0)
   \<and> getSubscriptionTrialEndDate new_york_2020 1583384400000 ''month'' = Some 1585713600
   \<and> on_clock new_york_2020 (MakeDate (MakeDay 2020 2 15) 0)
   \<and> getSubscriptionTrialEndDate new_york_2020 (Date_local new_york_2020 2020 2 15 0) ''month''
       = Some 1585713600
   \<and> \<not> on_clock sydney_2017 (MakeDate (MakeDay 2017 9 1) 9000000)
   \<and> Day (LocalTime sydney_2017 (UTC sydney_2017 (MakeDate (MakeDay 2017 9 1) 9000000)))
       = Day (MakeDate (MakeDay 2017 9 1) 9000000)
   \<and> TimeWithinDay (LocalTime sydney_2017 (UTC sydney_2017 (MakeDate (MakeDay 2017 9 1) 9000000)))
       = 12600000
   \<and> getSubscriptionTrialEndDate sydney_2017 1507995000000 ''month''
       = Some (Date_local sydney_2017 2017 10 1 12600000 div 1000)"
proof -
  have w: "''week'' \<noteq> ''month'' \<and> ''week'' \<noteq> ''year''" by simp
  have t: "LocalTime new_york_2020 1583384400000 = MakeDate 18326 0"
    by (simp add: LocalTime_def example_zone_offsets MakeDate_def msPerDay_def)
  have f: "YearFromTime (MakeDate 18326 0) = 2020" "MonthFromTime (MakeDate 18326 0) = 2"
    "TimeWithinDay (MakeDate 18326 0) = 0"
    by (simp_all add: YearFromTime_def MonthFromTime_def DayWithinYear_def InLeapYear_def
        YearFromDay_def DayFromYear_def Day_def TimeWithinDay_def MakeDate_def msPerDay_def
        month_start_def leap_year_def Let_def)
  have c: "on_clock new_york_2020 (MakeDate (MakeDay 2020 2 1) 0)"
    and c': "on_clock new_york_2020 (MakeDate (MakeDay 2020 2 15) 0)"
    by (simp_all add: on_clock_def LocalTime_def UTC_def example_zone_offsets example_days
        MakeDate_def msPerDay_def)
  from trial_end_is_first_of_next_period
    [where iv = "''week''" and z = new_york_2020 and tv = 1583384400000]
  have ny: "getSubscriptionTrialEndDate new_york_2020 1583384400000 ''week'' = None"
    "getSubscriptionTrialEndDate new_york_2020 1583384400000 ''month''
       = Some (Date_local new_york_2020 2020 3 1 0 div 1000)"
    "getSubscriptionTrialEndDate new_york_2020 (Date_local new_york_2020 2020 2 15 0) ''month''
       = Some (Date_local new_york_2020 2020 3 1 0 div 1000)"
    "Date_local new_york_2020 2020 3 1 0 div 1000 = 1585713600"
    using w c c' unfolding Let_def t f by simp_all
  have d: "MakeDay 2017 9 1 = 17440"
    by (simp add: MakeDay_def DayFromYear_def month_start_def leap_year_def Let_def)
  have o: "LocalTZA sydney_2017 t True
             = (if t < 1491062400000 then 39600000 else if t < 1506787200000 then 36000000
                else 39600000)"
    "LocalTZA sydney_2017 t False
             = (if t - 39600000 < 1491062400000 \<or> t - 36000000 < 1491062400000 then 39600000
                else if t - 36000000 < 1506787200000 \<or> t - 39600000 < 1506787200000
                then 36000000 else 39600000)" for t
    by (simp_all add: LocalTZA_def sydney_2017_def MakeDay_def DayFromYear_def month_start_def
        leap_year_def Let_def MakeDate_def msPerDay_def msPerHour_def)
  have st: "LocalTime sydney_2017 1507995000000 = MakeDate 17454 9000000"
    by (simp add: LocalTime_def o MakeDate_def msPerDay_def)
  have sf: "YearFromTime (MakeDate 17454 9000000) = 2017"
    "MonthFromTime (MakeDate 17454 9000000) = 9"
    "TimeWithinDay (MakeDate 17454 9000000) = 9000000"
    by (simp_all add: YearFromTime_def MonthFromTime_def DayWithinYear_def InLeapYear_def
        YearFromDay_def DayFromYear_def Day_def TimeWithinDay_def MakeDate_def msPerDay_def
        month_start_def leap_year_def Let_def)
  have sh: "LocalTime sydney_2017 (UTC sydney_2017 (MakeDate (MakeDay 2017 9 1) 9000000))
              = MakeDate 17440 12600000"
    by (simp add: LocalTime_def UTC_def o d MakeDate_def msPerDay_def)
  have s1: "\<not> on_clock sydney_2017 (MakeDate (MakeDay 2017 9 1) 9000000)"
    unfolding on_clock_def sh by (simp add: d MakeDate_def)
  have s2: "Day (LocalTime sydney_2017 (UTC sydney_2017 (MakeDate (MakeDay 2017 9 1) 9000000)))
       = Day (MakeDate (MakeDay 2017 9 1) 9000000)"
    and s3: "TimeWithinDay
         (LocalTime sydney_2017 (UTC sydney_2017 (MakeDate (MakeDay 2017 9 1) 9000000)))
       = 12600000"
    unfolding sh by (simp_all add: d Day_def TimeWithinDay_def MakeDate_def msPerDay_def)
  from trial_end_is_first_of_next_period
    [where iv = "''week''" and z = sydney_2017 and tv = 1507995000000]
  have sy: "getSubscriptionTrialEndDate sydney_2017 1507995000000 ''month''
       = Some (Date_local sydney_2017 2017 10 1 12600000 div 1000)"
    using s2 s3 unfolding Let_def st sf by simp
  from w c c' ny s1 s2 s3 sy show ?thesis by simp
qed

text \<open>
  The function evaluated in three zones. In New York and Berlin daylight saving starts
  between the first of March and the first of April 2020. In Sydney the first of
  October 2017 at half past two is skipped, and an order created on 15 October at that
  time of day gets the first of November at half past three.
\<close>

lemma trial_end_examples:
  "getSubscriptionTrialEndDate new_york_2020 (Date_local new_york_2020 2020 2 5 0) ''month''
     = Some 1585713600"
  "getSubscriptionTrialEndDate berlin_2020 (Date_local berlin_2020 2020 2 15 0) ''month''
     = Some 1585692000"
  "getSubscriptionTrialEndDate utc_zone (Date_local utc_zone 2020 2 15 0) ''month''
     = Some 1585699200"
  "\<not> on_clock sydney_2017 (MakeDate (MakeDay 2017 9 1) 9000000)"
  "getSubscriptionTrialEndDate sydney_2017 (Date_local sydney_2017 2017 9 15 9000000) ''month''
     = Some (Date_local sydney_2017 2017 10 1 12600000 div 1000)"
  by code_simp+

section \<open>Properties of \<open>processOrder\<close>\<close>

lemmas step_defs = then_step_def tap_step_def
  resolve_def gateway_def store_update_def store_create_def store_unawaited_def rejected_def

lemma called_simps [simp]:
  "called c [] = False"
  "called c (x # xs) = (c = fst x \<or> called c xs)"
  "called c (xs @ ys) = (called c xs \<or> called c ys)"
  by (auto simp add: called_def)

lemma called_in: "(c, b) \<in> set cs \<Longrightarrow> called c cs"
  by (force simp add: called_def)

lemma charge_summary:
  assumes "createChargeAndTransactions cfg env ord acct tok w = (r, w1)"
  shows "\<exists>cs. calls w1 = calls w @ cs
      \<and> \<not> called CreateSubscription cs \<and> \<not> called OrderUpdate cs
      \<and> \<not> called PaymentMethodUpdateConfirmedAt cs
      \<and> processedAt w1 = processedAt w \<and> paymentMethod w1 = paymentMethod w
      \<and> subscription_row w1 = subscription_row w
      \<and> (case r of
            Inl e \<Rightarrow> ledger w1 = ledger w
          | Inr pair \<Rightarrow>
              (\<exists>p. pair = [\<lparr>row_type = ''CREDIT'', row_payload = p\<rparr>,
                            \<lparr>row_type = ''DEBIT'', row_payload = p\<rparr>])
              \<and> ledger w1 = ledger w @ pair \<and> (CreateFromPayload, None) \<in> set cs)"
  using assms
  by (auto simp add: createChargeAndTransactions_def createFromPayload_def step_defs Let_def
      split: sum.splits option.splits prod.splits)

lemma customer_for_host_summary:
  assumes "getOrCreateCustomerIdForHost env ord acct w = (r, w1)"
  shows "\<exists>cs. calls w1 = calls w @ cs
      \<and> \<not> called CreateSubscription cs \<and> \<not> called OrderUpdate cs
      \<and> \<not> called PaymentMethodUpdateConfirmedAt cs
      \<and> processedAt w1 = processedAt w
      \<and> confirmedAt (paymentMethod w1) = confirmedAt (paymentMethod w)
      \<and> pm_id (paymentMethod w1) = pm_id (paymentMethod w)
      \<and> subscription_row w1 = subscription_row w \<and> ledger w1 = ledger w"
  using assms
  by (auto simp add: getOrCreateCustomerIdForHost_def step_defs Let_def
      split: sum.splits option.splits prod.splits if_splits)

lemma platform_customer_summary:
  assumes "getOrCreatePlatformCustomer env ord w = (r, w1)"
  shows "\<exists>cs. calls w1 = calls w @ cs
      \<and> \<not> called CreateSubscription cs \<and> \<not> called OrderUpdate cs
      \<and> \<not> called PaymentMethodUpdateConfirmedAt cs
      \<and> processedAt w1 = processedAt w
      \<and> confirmedAt (paymentMethod w1) = confirmedAt (paymentMethod w)
      \<and> subscription_row w1 = subscription_row w \<and> ledger w1 = ledger w"
  using assms
  by (auto simp add: getOrCreatePlatformCustomer_def step_defs truthy_string_def
      split: sum.splits option.splits prod.splits if_splits)

lemma findOrAddUserWithRole_frame [simp]:
  "calls (findOrAddUserWithRole uid role w) = calls w"
  "processedAt (findOrAddUserWithRole uid role w) = processedAt w"
  "paymentMethod (findOrAddUserWithRole uid role w) = paymentMethod w"
  "ledger (findOrAddUserWithRole uid role w) = ledger w"
  "subscription_row (findOrAddUserWithRole uid role w) = subscription_row w"
  by (simp_all add: findOrAddUserWithRole_def)

lemma subscription_summary:
  assumes "createSubscription_step cfg env ord sub acct w = (r, w1)"
  shows "\<exists>cs. calls w1 = calls w @ cs
      \<and> \<not> called OrderUpdate cs \<and> \<not> called PaymentMethodUpdateConfirmedAt cs
      \<and> processedAt w1 = processedAt w
      \<and> confirmedAt (paymentMethod w1) = confirmedAt (paymentMethod w)
      \<and> ledger w1 = ledger w
      \<and> (\<forall>e. (CreateSubscription, Some e) \<in> set cs \<longrightarrow> r = Inl e)"
  using assms
  by (auto simp add: createSubscription_step_def step_defs Let_def
      split: sum.splits option.splits prod.splits dest!: customer_for_host_summary dest: called_in)


lemma then_step_InlE:
  assumes "then_step p f w = (Inl e, w')"
  obtains (rejected) "p w = (Inl e, w')"
        | (resolved) a w1 where "p w = (Inr a, w1)" "f a w1 = (Inl e, w')"
  using assms by (auto simp add: then_step_def split: prod.splits sum.splits)

lemma then_step_InrE:
  assumes "then_step p f w = (Inr b, w')"
  obtains a w1 where "p w = (Inr a, w1)" "f a w1 = (Inr b, w')"
  using assms by (auto simp add: then_step_def split: prod.splits sum.splits)

lemma tap_step_InlE:
  assumes "tap_step p f w = (Inl e, w')"
  obtains (rejected) "p w = (Inl e, w')"
        | (tap_rejected) a w1 where "p w = (Inr a, w1)" "f a w1 = (Inl e, w')"
  using assms by (auto simp add: tap_step_def split: prod.splits sum.splits)

lemma tap_step_InrE:
  assumes "tap_step p f w = (Inr a, w')"
  obtains w1 b where "p w = (Inr a, w1)" "f a w1 = (Inr b, w')"
  using assms by (auto simp add: tap_step_def split: prod.splits sum.splits)

lemmas chainE = then_step_InlE then_step_InrE tap_step_InlE tap_step_InrE

lemmas leaf_defs = resolve_def gateway_def store_update_def store_create_def store_unawaited_def
  rejected_def new_calls_def truthy_string_def

text \<open>
  C5: when a run of \<open>processOrder\<close> makes the gateway call \<open>createSubscription\<close> and that
  call is rejected with \<open>e\<close>, the run is rejected with \<open>e\<close>; a subscription was supplied;
  the Transaction pair written by the charge step is in the ledger; and neither
  \<open>order.processedAt\<close> nor \<open>paymentMethod.confirmedAt\<close> is set, their updates not even
  being attempted.
\<close>

theorem subscription_failure_keeps_charge_unprocessed:
  assumes "processOrder cfg env ord w = (res, w')"
    and "(CreateSubscription, Some e) \<in> set (new_calls w w')"
  shows "res = Inl e
       \<and> processedAt w' = processedAt w
       \<and> confirmedAt (paymentMethod w') = confirmedAt (paymentMethod w)
       \<and> (\<exists>p. ledger w' = ledger w @ [\<lparr>row_type = ''CREDIT'', row_payload = p\<rparr>,
                                        \<lparr>row_type = ''DEBIT'', row_payload = p\<rparr>])
       \<and> (CreateFromPayload, None) \<in> set (new_calls w w')
       \<and> \<not> called OrderUpdate (new_calls w w')
       \<and> \<not> called PaymentMethodUpdateConfirmedAt (new_calls w w')
       \<and> subscription_row w \<noteq> None"
proof (cases res)
  case (Inl e')
  from assms(1) have "processOrder cfg env ord w = (Inl e', w')" unfolding Inl .
  then show ?thesis
    using assms(2) unfolding processOrder_def Inl
    apply (elim chainE)
    apply (auto simp add: leaf_defs split: sum.splits option.splits
        dest!: charge_summary subscription_summary platform_customer_summary dest: called_in)
    done
next
  case (Inr pair)
  from assms(1) have "processOrder cfg env ord w = (Inr pair, w')" unfolding Inr .
  then show ?thesis
    using assms(2) unfolding processOrder_def Inr
    apply (elim chainE)
    apply (auto simp add: leaf_defs split: sum.splits option.splits
        dest!: charge_summary subscription_summary platform_customer_summary dest: called_in)
    done
qed

lemma example_run_calls:
  "calls (snd (processOrder example_settings failing_gateway example_order example_world)) =
     [(GetHostStripeAccount, None), (CreateCustomer, None), (PaymentMethodUpdateCustomerId, None),
      (CreateToken, None), (CreateCharge, None), (RetrieveBalanceTransaction, None),
      (CreateFromPayload, None), (GetOrCreatePlan, None), (CreateToken, None),
      (CreateCustomer, None), (PaymentMethodSave, None), (CreateSubscription, Some ''gateway down'')]"
  by (simp add: processOrder_def getOrCreatePlatformCustomer_def createChargeAndTransactions_def
      createFromPayload_def createSubscription_step_def getOrCreateCustomerIdForHost_def
      step_defs truthy_string_def Let_def failing_gateway_def example_world_def)

theorem subscription_failure_keeps_charge_unprocessed_witness:
  "(CreateSubscription, Some ''gateway down'')
      \<in> set (new_calls example_world
            (snd (processOrder example_settings failing_gateway example_order example_world)))
   \<and> fst (processOrder example_settings failing_gateway example_order example_world)
       = Inl ''gateway down''
   \<and> processedAt (snd (processOrder example_settings failing_gateway example_order example_world))
       = None
   \<and> length (ledger (snd (processOrder example_settings failing_gateway example_order example_world)))
       = 2"
proof -
  let ?run = "processOrder example_settings failing_gateway example_order example_world"
  have h: "(CreateSubscription, Some ''gateway down'') \<in> set (new_calls example_world (snd ?run))"
    by (simp add: new_calls_def example_run_calls) (simp add: example_world_def)
  have r: "?run = (fst ?run, snd ?run)" by simp
  from subscription_failure_keeps_charge_unprocessed[OF r h]
  have "fst ?run = Inl ''gateway down''"
    and "processedAt (snd ?run) = processedAt example_world"
    and "\<exists>p. ledger (snd ?run) = ledger example_world
           @ [\<lparr>row_type = ''CREDIT'', row_payload = p\<rparr>, \<lparr>row_type = ''DEBIT'', row_payload = p\<rparr>]"
    by blast+
  then show ?thesis using h by (auto simp add: example_world_def)
qed

end
